theory Spec2Isabelle
  imports Complex_Main "HOL-Library.Monad_Syntax" "HOL-Library.AList"
    "HOL-Library.Char_ord" "HOL-Library.List_Lexorder"
begin

section \<open>Floating-point values as the summary sees them\<close>

text \<open>
  The tables of \<^verbatim>\<open>cobra/summary/metabolite_summary.py\<close> hold numpy \<^verbatim>\<open>float64\<close>
  cells. A cell is modelled by its value class: a finite number, negative zero, an
  infinity or NaN. \<open>Fin 0\<close> is positive zero. Rounding is not modelled: the finite
  results of \<open>*\<close>, \<open>+\<close> and \<open>/\<close> are the exact real results, so overflow and underflow
  do not occur. The special values follow IEEE 754 as numpy applies it: an operation
  on NaN gives NaN, every comparison with NaN is false, \<open>0 / 0\<close> is NaN and raises
  nothing, a zero product carries the exclusive-or of the signs, and a zero sum is
  negative only when both summands are negative zeros.
\<close>

datatype npfloat = Fin real | NegZero | PosInf | NegInf | NaN

fun isnan :: "npfloat \<Rightarrow> bool" where
  "isnan NaN = True"
| "isnan _ = False"

fun isinf :: "npfloat \<Rightarrow> bool" where
  "isinf PosInf = True"
| "isinf NegInf = True"
| "isinf _ = False"

fun isfinite :: "npfloat \<Rightarrow> bool" where
  "isfinite (Fin r) = True"
| "isfinite NegZero = True"
| "isfinite _ = False"

fun signbit :: "npfloat \<Rightarrow> bool" where
  "signbit (Fin r) = (r < 0)"
| "signbit NegZero = True"
| "signbit NegInf = True"
| "signbit _ = False"

fun fval :: "npfloat \<Rightarrow> real" where
  "fval (Fin r) = r"
| "fval _ = 0"

fun np_iszero :: "npfloat \<Rightarrow> bool" where
  "np_iszero (Fin r) = (r = 0)"
| "np_iszero NegZero = True"
| "np_iszero _ = False"

definition mk_zero :: "bool \<Rightarrow> npfloat" where
  "mk_zero neg = (if neg then NegZero else Fin 0)"

definition mk_inf :: "bool \<Rightarrow> npfloat" where
  "mk_inf neg = (if neg then NegInf else PosInf)"

definition np_abs :: "npfloat \<Rightarrow> npfloat" where
  "np_abs x = (case x of Fin r \<Rightarrow> Fin \<bar>r\<bar> | NegZero \<Rightarrow> Fin 0
     | PosInf \<Rightarrow> PosInf | NegInf \<Rightarrow> PosInf | NaN \<Rightarrow> NaN)"

definition np_mul :: "npfloat \<Rightarrow> npfloat \<Rightarrow> npfloat" where
  "np_mul x y =
     (if isnan x \<or> isnan y then NaN
      else if (isinf x \<and> np_iszero y) \<or> (np_iszero x \<and> isinf y) then NaN
      else if isinf x \<or> isinf y then mk_inf (signbit x \<noteq> signbit y)
      else if np_iszero x \<or> np_iszero y then mk_zero (signbit x \<noteq> signbit y)
      else Fin (fval x * fval y))"

definition np_add :: "npfloat \<Rightarrow> npfloat \<Rightarrow> npfloat" where
  "np_add x y =
     (if isnan x \<or> isnan y then NaN
      else if isinf x \<and> isinf y then (if x = y then x else NaN)
      else if isinf x then x
      else if isinf y then y
      else if x = NegZero \<and> y = NegZero then NegZero
      else Fin (fval x + fval y))"

definition np_div :: "npfloat \<Rightarrow> npfloat \<Rightarrow> npfloat" where
  "np_div x y =
     (if isnan x \<or> isnan y then NaN
      else if (np_iszero x \<and> np_iszero y) \<or> (isinf x \<and> isinf y) then NaN
      else if isinf x \<or> np_iszero y then mk_inf (signbit x \<noteq> signbit y)
      else if np_iszero x \<or> isinf y then mk_zero (signbit x \<noteq> signbit y)
      else Fin (fval x / fval y))"

text \<open>The order of the extended real line; NaN is unordered and \<open>-0 == +0\<close>.\<close>

definition np_lt :: "npfloat \<Rightarrow> npfloat \<Rightarrow> bool" where
  "np_lt x y =
     (if isnan x \<or> isnan y then False
      else if x = PosInf \<or> y = NegInf then False
      else if x = NegInf \<or> y = PosInf then True
      else fval x < fval y)"

definition np_eq :: "npfloat \<Rightarrow> npfloat \<Rightarrow> bool" where
  "np_eq x y =
     (if isnan x \<or> isnan y then False
      else if isinf x \<or> isinf y then x = y
      else fval x = fval y)"

definition np_gt :: "npfloat \<Rightarrow> npfloat \<Rightarrow> bool" where
  "np_gt x y = np_lt y x"

definition np_ge :: "npfloat \<Rightarrow> npfloat \<Rightarrow> bool" where
  "np_ge x y = (np_lt y x \<or> np_eq x y)"

text \<open>
  \<^verbatim>\<open>Series.sum()\<close> with the pandas defaults: NaN cells are skipped and the sum of
  no cells is \<open>0\<close>.
\<close>

definition np_sum :: "npfloat list \<Rightarrow> npfloat" where
  "np_sum xs = foldl np_add (Fin 0) (filter (\<lambda>x. \<not> isnan x) xs)"

section \<open>Data frames\<close>

text \<open>
  A \<^verbatim>\<open>DataFrame\<close> is its row index and its columns in order, each column a list of
  cells of one kind with one cell per index label. Reading a column the frame does
  not have raises \<^verbatim>\<open>KeyError\<close>; an exception is the value \<open>None\<close>. Columns
  and masks are combined row by row, by position. pandas combines them by index
  label, which is the same thing when the labels are distinct, as the reaction
  identifiers of one model are.
\<close>

datatype column = Floats "npfloat list" | Strs "string list" | Pairs "(npfloat \<times> npfloat) list"

record frame =
  index :: "string list"
  cols :: "(string \<times> column) list"

definition columns :: "frame \<Rightarrow> string list" where
  "columns f = map fst (cols f)"

definition floats :: "frame \<Rightarrow> string \<Rightarrow> npfloat list option" where
  \<comment> \<open>\<^verbatim>\<open>frame[c]\<close> for a numeric column\<close>
  "floats f c = (case map_of (cols f) c of Some (Floats xs) \<Rightarrow> Some xs | _ \<Rightarrow> None)"

definition strs :: "frame \<Rightarrow> string \<Rightarrow> string list option" where
  \<comment> \<open>\<^verbatim>\<open>frame[c]\<close> for a column of strings\<close>
  "strs f c = (case map_of (cols f) c of Some (Strs xs) \<Rightarrow> Some xs | _ \<Rightarrow> None)"

definition setcol :: "frame \<Rightarrow> string \<Rightarrow> column \<Rightarrow> frame" where
  \<comment> \<open>\<^verbatim>\<open>frame[c] = values\<close>: replaces the column in place, or appends a new one\<close>
  "setcol f c v = f\<lparr>cols := AList.update c v (cols f)\<rparr>"

definition pick :: "bool list \<Rightarrow> 'a list \<Rightarrow> 'a list" where
  \<comment> \<open>the cells of a column at the rows where the boolean mask holds\<close>
  "pick bs xs = map snd (filter fst (zip bs xs))"

fun pick_col :: "bool list \<Rightarrow> column \<Rightarrow> column" where
  "pick_col bs (Floats xs) = Floats (pick bs xs)"
| "pick_col bs (Strs xs) = Strs (pick bs xs)"
| "pick_col bs (Pairs xs) = Pairs (pick bs xs)"

fun put :: "bool list \<Rightarrow> 'a list \<Rightarrow> 'a list \<Rightarrow> 'a list" where
  \<comment> \<open>\<^verbatim>\<open>frame.loc[mask, c] = values\<close>: the masked cells take the values in row order\<close>
  "put (True # bs) (x # xs) (v # vs) = v # put bs xs vs"
| "put (False # bs) (x # xs) vs = x # put bs xs vs"
| "put _ xs _ = xs"

definition put_scalar :: "bool list \<Rightarrow> 'a list \<Rightarrow> 'a \<Rightarrow> 'a list" where
  \<comment> \<open>\<^verbatim>\<open>frame.loc[mask, c] = v\<close>\<close>
  "put_scalar bs xs v = map2 (\<lambda>b x. if b then v else x) bs xs"

definition loc_rows :: "frame \<Rightarrow> bool list \<Rightarrow> frame" where
  \<comment> \<open>\<^verbatim>\<open>frame.loc[mask, :]\<close>\<close>
  "loc_rows f bs =
     \<lparr>index = pick bs (index f), cols = map (\<lambda>(c, v). (c, pick_col bs v)) (cols f)\<rparr>"

definition select :: "frame \<Rightarrow> string list \<Rightarrow> frame option" where
  \<comment> \<open>\<^verbatim>\<open>frame[[c1, ..., cn]]\<close>: a new frame with these columns in this order\<close>
  "select f names =
     map_option (\<lambda>vs. \<lparr>index = index f, cols = zip names vs\<rparr>)
       (those (map (map_of (cols f)) names))"

definition loc :: "frame \<Rightarrow> bool list \<Rightarrow> string list \<Rightarrow> frame option" where
  \<comment> \<open>\<^verbatim>\<open>frame.loc[mask, [c1, ..., cn]]\<close>\<close>
  "loc f bs names = select (loc_rows f bs) names"

section \<open>The model, its reactions and the collaborators\<close>

text \<open>
  Of the model the summary reads the numerical tolerance; of a reaction its
  identifier, the stoichiometric coefficients of its metabolites and its definition
  string; of the metabolite its identifier, name, formula and reactions. The solver
  (\<^verbatim>\<open>pfba\<close>), the variability analysis and the pandas and \<^verbatim>\<open>textwrap\<close> formatters
  are collaborators outside the class: they are parameters, and a collaborator that
  raises returns \<open>None\<close>. A flux of the solution is any cell value, NaN and the
  infinities included. The coefficients of a reaction, the bounds of the variability
  analysis and the tolerance are finite numbers.
\<close>

record model =
  tolerance :: real

record reaction =
  rid :: string
  metabolites :: "string \<rightharpoonup> real"
  build_reaction_string :: "bool \<Rightarrow> string"

record metabolite =
  met_id :: string
  met_name :: string
  formula :: string
  met_reactions :: "reaction list"

type_synonym solution = "string \<rightharpoonup> npfloat"
  \<comment> \<open>reaction identifier to flux: any \<^verbatim>\<open>float64\<close> value, NaN and the infinities included\<close>

type_synonym fva_frame = "string \<rightharpoonup> real \<times> real"
  \<comment> \<open>reaction identifier to \<open>(minimum, maximum)\<close>\<close>

datatype fva_arg = Fraction real | Bounds fva_frame

record ext =
  pfba :: "model \<Rightarrow> solution option"
  flux_variability_analysis :: "model \<Rightarrow> string list \<Rightarrow> real \<Rightarrow> fva_frame option"
  shorten :: "string \<Rightarrow> int \<Rightarrow> string"
  frame_to_string :: "frame \<Rightarrow> string \<Rightarrow> int \<Rightarrow> string"
  frame_to_html :: "frame \<Rightarrow> string \<Rightarrow> string"

definition get_coefficient :: "reaction \<Rightarrow> string \<Rightarrow> real option" where
  "get_coefficient r metabolite_id = metabolites r metabolite_id"

record metabolite_summary =
  self_model :: model
  self_metabolite :: metabolite
  self_reactions :: "reaction list"
  producing_fluxes :: "frame option"
  consuming_fluxes :: "frame option"
  self_flux :: "frame option"

section \<open>Construction\<close>

definition DataFrame :: "(string \<times> npfloat \<times> real) list \<Rightarrow> string list \<Rightarrow> frame" where
  \<comment> \<open>lines 100-107: one row \<open>(reaction, flux, factor)\<close> per reaction\<close>
  "DataFrame data idx =
     \<lparr>index = idx,
      cols = [(''reaction'', Strs (map (\<lambda>(i, v, c). i) data)),
              (''flux'', Floats (map (\<lambda>(i, v, c). v) data)),
              (''factor'', Floats (map (\<lambda>(i, v, c). Fin c) data))]\<rparr>"

definition join :: "frame \<Rightarrow> fva_frame \<Rightarrow> frame" where
  \<comment> \<open>line 112: a left join on the index; a reaction without bounds gets NaN cells\<close>
  "join f fva =
     f\<lparr>cols := cols f @
        [(''minimum'', Floats (map (\<lambda>i. case fva i of None \<Rightarrow> NaN | Some (lo, hi) \<Rightarrow> Fin lo) (index f))),
         (''maximum'', Floats (map (\<lambda>i. case fva i of None \<Rightarrow> NaN | Some (lo, hi) \<Rightarrow> Fin hi) (index f)))]\<rparr>"

definition np_where :: "bool list \<Rightarrow> npfloat list \<Rightarrow> npfloat \<Rightarrow> npfloat list" where
  \<comment> \<open>\<^verbatim>\<open>view.where(cond, other)\<close>: keeps a cell where the condition holds\<close>
  "np_where cond xs other = map2 (\<lambda>b x. if b then x else other) cond xs"

definition scale_flux :: "frame \<Rightarrow> frame option" where
  \<comment> \<open>line 109: \<^verbatim>\<open>flux["flux"] *= flux["factor"]\<close>\<close>
  "scale_flux flux = do {
     fl \<leftarrow> floats flux ''flux'';
     fa \<leftarrow> floats flux ''factor'';
     Some (setcol flux ''flux'' (Floats (map2 np_mul fl fa)))
   }"

definition with_fva :: "model \<Rightarrow> frame \<Rightarrow> fva_frame \<Rightarrow> frame option" where
  \<comment> \<open>lines 112-128\<close>
  "with_fva model flux0 fva = do {
     let flux = join flux0 fva;
     vf \<leftarrow> floats flux ''flux'';
     vmin \<leftarrow> floats flux ''minimum'';
     vmax \<leftarrow> floats flux ''maximum'';
     let keep = (\<lambda>xs. np_where (map (\<lambda>x. np_ge (np_abs x) (Fin (tolerance model))) xs) xs (Fin 0));
     let flux = setcol flux ''flux'' (Floats (keep vf));
     let flux = setcol flux ''minimum'' (Floats (keep vmin));
     let flux = setcol flux ''maximum'' (Floats (keep vmax));
     mn \<leftarrow> floats flux ''minimum'';
     mx \<leftarrow> floats flux ''maximum'';
     fa \<leftarrow> floats flux ''factor'';
     let flux = setcol flux ''minimum'' (Floats (map2 np_mul mn fa));
     let flux = setcol flux ''maximum'' (Floats (map2 np_mul mx fa));
     fa \<leftarrow> floats flux ''factor'';
     let negative = map (\<lambda>x. np_lt x (Fin 0)) fa;
     mx \<leftarrow> floats flux ''maximum'';
     let tmp = pick negative mx;
     mn \<leftarrow> floats flux ''minimum'';
     let flux = setcol flux ''maximum'' (Floats (put negative mx (pick negative mn)));
     mn \<leftarrow> floats flux ''minimum'';
     let flux = setcol flux ''minimum'' (Floats (put negative mn tmp));
     vf \<leftarrow> floats flux ''flux'';
     vmin \<leftarrow> floats flux ''minimum'';
     vmax \<leftarrow> floats flux ''maximum'';
     let flux = setcol flux ''flux'' (Floats (map (\<lambda>x. np_add x (Fin 0)) vf));
     let flux = setcol flux ''minimum'' (Floats (map (\<lambda>x. np_add x (Fin 0)) vmin));
     let flux = setcol flux ''maximum'' (Floats (map (\<lambda>x. np_add x (Fin 0)) vmax));
     Some flux
   }"

definition without_fva :: "model \<Rightarrow> frame \<Rightarrow> frame option" where
  \<comment> \<open>lines 131-133\<close>
  "without_fva model flux = do {
     vf \<leftarrow> floats flux ''flux'';
     let below = map (\<lambda>x. np_lt (np_abs x) (Fin (tolerance model))) vf;
     let flux = setcol flux ''flux'' (Floats (put_scalar below vf (Fin 0)));
     vf \<leftarrow> floats flux ''flux'';
     Some (setcol flux ''flux'' (Floats (map (\<lambda>x. np_add x (Fin 0)) vf)))
   }"

definition is_produced :: "frame \<Rightarrow> bool list option" where
  \<comment> \<open>line 137\<close>
  "is_produced flux = do {
     fl \<leftarrow> floats flux ''flux'';
     fa \<leftarrow> floats flux ''factor'';
     Some (map2 (\<or>) (map (\<lambda>x. np_gt x (Fin 0)) fl)
             (map2 (\<and>) (map (\<lambda>x. np_eq x (Fin 0)) fl) (map (\<lambda>x. np_gt x (Fin 0)) fa)))
   }"

definition is_consumed :: "frame \<Rightarrow> bool list option" where
  \<comment> \<open>line 149\<close>
  "is_consumed flux = do {
     fl \<leftarrow> floats flux ''flux'';
     fa \<leftarrow> floats flux ''factor'';
     Some (map2 (\<or>) (map (\<lambda>x. np_lt x (Fin 0)) fl)
             (map2 (\<and>) (map (\<lambda>x. np_eq x (Fin 0)) fl) (map (\<lambda>x. np_lt x (Fin 0)) fa)))
   }"

definition fluxes_table :: "frame \<Rightarrow> bool list \<Rightarrow> bool \<Rightarrow> frame option" where
  \<comment> \<open>lines 138-145 for the producing table, 150-157 for the consuming one\<close>
  "fluxes_table flux bs has_fva = do {
     fluxes \<leftarrow> (if has_fva then loc flux bs [''flux'', ''minimum'', ''maximum'', ''reaction'']
                else loc flux bs [''flux'', ''reaction'']);
     fl \<leftarrow> floats fluxes ''flux'';
     let production = map np_abs fl;
     Some (setcol fluxes ''percent''
             (Floats (map (\<lambda>x. np_div x (np_sum production)) production)))
   }"

definition solution_or_pfba :: "ext \<Rightarrow> model \<Rightarrow> solution option \<Rightarrow> solution option" where
  \<comment> \<open>lines 87-89\<close>
  "solution_or_pfba ext model solution =
     (case solution of None \<Rightarrow> pfba ext model | Some s \<Rightarrow> Some s)"

definition fva_or_analysis ::
  "ext \<Rightarrow> metabolite_summary \<Rightarrow> model \<Rightarrow> fva_arg option \<Rightarrow> fva_frame option option" where
  \<comment> \<open>lines 91-97; the outer \<open>None\<close> is the analysis raising, the inner one no bounds\<close>
  "fva_or_analysis ext self model fva =
     (case fva of
        Some (Fraction fraction_of_optimum) \<Rightarrow>
          map_option Some
            (flux_variability_analysis ext model (map rid (self_reactions self))
               fraction_of_optimum)
      | Some (Bounds b) \<Rightarrow> Some (Some b)
      | None \<Rightarrow> Some None)"

definition flux_data ::
  "metabolite_summary \<Rightarrow> solution \<Rightarrow> (string \<times> npfloat \<times> real) list option" where
  \<comment> \<open>lines 101-104: a missing flux or coefficient raises \<^verbatim>\<open>KeyError\<close>\<close>
  "flux_data self solution =
     those (map (\<lambda>r. do {
              v \<leftarrow> solution (rid r);
              c \<leftarrow> get_coefficient r (met_id (self_metabolite self));
              Some (rid r, v, c)
            }) (self_reactions self))"

definition generate ::
  "ext \<Rightarrow> metabolite_summary \<Rightarrow> model \<Rightarrow> solution option \<Rightarrow> fva_arg option
     \<Rightarrow> metabolite_summary option" where
  "generate ext self model solution fva = do {
     solution \<leftarrow> solution_or_pfba ext model solution;
     fva \<leftarrow> fva_or_analysis ext self model fva;
     data \<leftarrow> flux_data self solution;
     flux \<leftarrow> scale_flux (DataFrame data (map rid (self_reactions self)));
     flux \<leftarrow> (case fva of Some b \<Rightarrow> with_fva model flux b | None \<Rightarrow> without_fva model flux);
     produced \<leftarrow> is_produced flux;
     producing \<leftarrow> fluxes_table flux produced (fva \<noteq> None);
     consumed \<leftarrow> is_consumed flux;
     consuming \<leftarrow> fluxes_table flux consumed (fva \<noteq> None);
     Some (self\<lparr>producing_fluxes := Some producing, consuming_fluxes := Some consuming,
                self_flux := Some flux\<rparr>)
   }"

definition init ::
  "ext \<Rightarrow> metabolite \<Rightarrow> model \<Rightarrow> solution option \<Rightarrow> fva_arg option
     \<Rightarrow> metabolite_summary option" where
  \<comment> \<open>lines 71-78; the snapshot copies are the values themselves\<close>
  "init ext metabolite model solution fva =
     generate ext
       \<lparr>self_model = model, self_metabolite = metabolite,
        self_reactions = sort_key rid (met_reactions metabolite),
        producing_fluxes = None, consuming_fluxes = None, self_flux = None\<rparr>
       model solution fva"

section \<open>Rendering\<close>

text \<open>
  Rendering passes frames by reference and assigns to them, so the frames live in a
  store: the two tables of the summary, reached through the summary, and the frames that
  rendering creates. \<^verbatim>\<open>.copy()\<close> and \<^verbatim>\<open>frame[[...]]\<close> create a frame; an item or
  attribute assignment writes to the frame its reference names.
\<close>

datatype ref = ProducingFluxes | ConsumingFluxes | Object nat

record state =
  summary :: metabolite_summary
  objects :: "frame list"

definition deref :: "state \<Rightarrow> ref \<Rightarrow> frame option" where
  "deref st r = (case r of
       ProducingFluxes \<Rightarrow> producing_fluxes (summary st)
     | ConsumingFluxes \<Rightarrow> consuming_fluxes (summary st)
     | Object n \<Rightarrow> (if n < length (objects st) then Some (objects st ! n) else None))"

definition new :: "state \<Rightarrow> frame \<Rightarrow> ref \<times> state" where
  "new st f = (Object (length (objects st)), st\<lparr>objects := objects st @ [f]\<rparr>)"

definition assign :: "state \<Rightarrow> ref \<Rightarrow> frame \<Rightarrow> state" where
  "assign st r f = (case r of
       ProducingFluxes \<Rightarrow> st\<lparr>summary := (summary st)\<lparr>producing_fluxes := Some f\<rparr>\<rparr>
     | ConsumingFluxes \<Rightarrow> st\<lparr>summary := (summary st)\<lparr>consuming_fluxes := Some f\<rparr>\<rparr>
     | Object n \<Rightarrow> st\<lparr>objects := (objects st)[n := f]\<rparr>)"

definition has_bounds :: "frame \<Rightarrow> bool" where
  \<comment> \<open>\<^verbatim>\<open>"minimum" in frame.columns and "maximum" in frame.columns\<close>\<close>
  "has_bounds f = (''minimum'' \<in> set (columns f) \<and> ''maximum'' \<in> set (columns f))"

definition shown :: "frame \<Rightarrow> real \<Rightarrow> bool list option" where
  \<comment> \<open>lines 162-170: the mask of the rows that are displayed\<close>
  "shown f threshold =
     (if has_bounds f then do {
        fl \<leftarrow> floats f ''flux'';
        mn \<leftarrow> floats f ''minimum'';
        mx \<leftarrow> floats f ''maximum'';
        Some (map2 (\<or>)
                (map2 (\<or>) (map (\<lambda>x. np_ge (np_abs x) (Fin threshold)) fl)
                           (map (\<lambda>x. np_ge (np_abs x) (Fin threshold)) mn))
                (map (\<lambda>x. np_ge (np_abs x) (Fin threshold)) mx))
      } else do {
        fl \<leftarrow> floats f ''flux'';
        Some (map (\<lambda>x. np_ge (np_abs x) (Fin threshold)) fl)
      })"

definition display_flux :: "state \<Rightarrow> ref \<Rightarrow> bool \<Rightarrow> real \<Rightarrow> (ref \<times> state) option" where
  "display_flux st frame names threshold = do {
     f \<leftarrow> deref st frame;
     bs \<leftarrow> shown f threshold;
     let (frame, st) = new st (loc_rows f bs);
     let reactions = map_of (rev (map (\<lambda>r. (rid r, r)) (self_reactions (summary st))));
     f \<leftarrow> deref st frame;
     ids \<leftarrow> strs f ''reaction'';
     definition \<leftarrow> those (map (\<lambda>rxn_id.
                      map_option (\<lambda>r. build_reaction_string r names) (reactions rxn_id)) ids);
     let st = assign st frame (setcol f ''definition'' (Strs definition));
     f \<leftarrow> deref st frame;
     if has_bounds f then do {
       mn \<leftarrow> floats f ''minimum'';
       mx \<leftarrow> floats f ''maximum'';
       let st = assign st frame (setcol f ''range'' (Pairs (zip mn mx)));
       f \<leftarrow> deref st frame;
       out \<leftarrow> select f [''percent'', ''flux'', ''range'', ''reaction'', ''definition''];
       Some (new st out)
     } else do {
       out \<leftarrow> select f [''percent'', ''flux'', ''reaction'', ''definition''];
       Some (new st out)
     }
   }"

text \<open>\<^verbatim>\<open>str.title()\<close> on ASCII text: a letter is upper case after a non-letter and lower
  case after a letter.\<close>

definition is_upper :: "char \<Rightarrow> bool" where
  "is_upper c = (CHR ''A'' \<le> c \<and> c \<le> CHR ''Z'')"

definition is_lower :: "char \<Rightarrow> bool" where
  "is_lower c = (CHR ''a'' \<le> c \<and> c \<le> CHR ''z'')"

definition to_upper :: "char \<Rightarrow> char" where
  "to_upper c = (if is_lower c then char_of (of_char c - (32::nat)) else c)"

definition to_lower :: "char \<Rightarrow> char" where
  "to_lower c = (if is_upper c then char_of (of_char c + (32::nat)) else c)"

fun title_from :: "bool \<Rightarrow> string \<Rightarrow> string" where
  "title_from after_letter [] = []"
| "title_from after_letter (c # cs) =
     (if is_upper c \<or> is_lower c
      then (if after_letter then to_lower c else to_upper c) # title_from True cs
      else c # title_from False cs)"

definition title :: "string \<Rightarrow> string" where
  "title header = title_from False header"

definition retitle :: "frame \<Rightarrow> frame" where
  \<comment> \<open>\<^verbatim>\<open>frame.columns = [header.title() for header in frame.columns]\<close>\<close>
  "retitle f = f\<lparr>cols := map (\<lambda>(header, v). (title header, v)) (cols f)\<rparr>"

definition string_table ::
  "ext \<Rightarrow> state \<Rightarrow> ref \<Rightarrow> string \<Rightarrow> int \<Rightarrow> (string \<times> state) option" where
  "string_table ext st frame float_format column_width = do {
     f \<leftarrow> deref st frame;
     let st = assign st frame (retitle f);
     f \<leftarrow> deref st frame;
     Some (frame_to_string ext f float_format column_width, st)
   }"

definition html_table :: "ext \<Rightarrow> state \<Rightarrow> ref \<Rightarrow> string \<Rightarrow> (string \<times> state) option" where
  "html_table ext st frame float_format = do {
     f \<leftarrow> deref st frame;
     let st = assign st frame (retitle f);
     f \<leftarrow> deref st frame;
     Some (frame_to_html ext f float_format, st)
   }"

definition normalize_cutoff :: "model \<Rightarrow> real \<Rightarrow> real" where
  \<comment> \<open>Modelled from the spec: \<^verbatim>\<open>cobra.flux_analysis.helpers.normalize_cutoff\<close> is
      imported by the module and defined outside it. The spec: the caller-supplied
      threshold is widened to at least the model's numerical tolerance.\<close>
  "normalize_cutoff model zero_cutoff = max zero_cutoff (tolerance model)"

definition nl :: string where
  "nl = [CHR 0x0A]"

definition to_string ::
  "ext \<Rightarrow> state \<Rightarrow> bool \<Rightarrow> real \<Rightarrow> string \<Rightarrow> int \<Rightarrow> (string \<times> state) option" where
  "to_string ext st names threshold float_format column_width = do {
     let threshold = normalize_cutoff (self_model (summary st)) threshold;
     let metabolite =
       (if names then shorten ext (met_name (self_metabolite (summary st))) column_width
        else shorten ext (met_id (self_metabolite (summary st))) column_width);
     (frame, st) \<leftarrow> display_flux st ProducingFluxes names threshold;
     (production, st) \<leftarrow> string_table ext st frame float_format column_width;
     (frame, st) \<leftarrow> display_flux st ConsumingFluxes names threshold;
     (consumption, st) \<leftarrow> string_table ext st frame float_format column_width;
     Some (metabolite @ nl @ replicate (length metabolite) (CHR ''='') @ nl
           @ ''Formula: '' @ formula (self_metabolite (summary st)) @ nl @ nl
           @ ''Producing Reactions'' @ nl
           @ ''-------------------'' @ nl
           @ production @ nl @ nl
           @ ''Consuming Reactions'' @ nl
           @ ''-------------------'' @ nl
           @ consumption, st)
   }"

definition to_html ::
  "ext \<Rightarrow> state \<Rightarrow> bool \<Rightarrow> real \<Rightarrow> string \<Rightarrow> (string \<times> state) option" where
  "to_html ext st names threshold float_format = do {
     let metabolite =
       (if names then met_name (self_metabolite (summary st))
        else met_id (self_metabolite (summary st)));
     (frame, st) \<leftarrow> display_flux st ProducingFluxes names threshold;
     (production, st) \<leftarrow> html_table ext st frame float_format;
     (frame, st) \<leftarrow> display_flux st ConsumingFluxes names threshold;
     (consumption, st) \<leftarrow> html_table ext st frame float_format;
     Some (''<h3>'' @ metabolite @ ''</h3>''
           @ ''<p>'' @ formula (self_metabolite (summary st)) @ ''</p>''
           @ ''<h4>Producing Reactions</h4>''
           @ production
           @ ''<h4>Consuming Reactions</h4>''
           @ consumption, st)
   }"

section \<open>The tables read row by row\<close>

text \<open>
  The frames that construction stores, written as functions of the rows
  \<open>(reaction, flux, factor)\<close> of line 102. The lemmas below prove that \<open>generate\<close>
  stores exactly these frames; the definitions serve those proofs.
\<close>

type_synonym datum = "string \<times> npfloat \<times> real"

definition snap :: "real \<Rightarrow> real \<Rightarrow> real" where
  "snap tol x = (if \<bar>x\<bar> < tol then 0 else x)"

definition scaled :: "datum \<Rightarrow> npfloat" where
  "scaled d = np_mul (fst (snd d)) (Fin (snd (snd d)))"

definition stored_flux :: "real \<Rightarrow> fva_frame option \<Rightarrow> datum \<Rightarrow> npfloat" where
  "stored_flux tol fv d =
     (case fv of
        None \<Rightarrow> np_add (if np_lt (np_abs (scaled d)) (Fin tol) then Fin 0 else scaled d) (Fin 0)
      | Some b \<Rightarrow> np_add (if np_ge (np_abs (scaled d)) (Fin tol) then scaled d else Fin 0) (Fin 0))"

definition stored_minimum :: "real \<Rightarrow> fva_frame \<Rightarrow> datum \<Rightarrow> real" where
  "stored_minimum tol b d = (case b (fst d) of None \<Rightarrow> 0
     | Some (lo, hi) \<Rightarrow> (if snd (snd d) < 0 then snap tol hi else snap tol lo) * snd (snd d))"

definition stored_maximum :: "real \<Rightarrow> fva_frame \<Rightarrow> datum \<Rightarrow> real" where
  "stored_maximum tol b d = (case b (fst d) of None \<Rightarrow> 0
     | Some (lo, hi) \<Rightarrow> (if snd (snd d) < 0 then snap tol lo else snap tol hi) * snd (snd d))"

definition row_produced :: "real \<Rightarrow> fva_frame option \<Rightarrow> datum \<Rightarrow> bool" where
  "row_produced tol fv d =
     (np_gt (stored_flux tol fv d) (Fin 0) \<or>
      (np_eq (stored_flux tol fv d) (Fin 0) \<and> 0 < snd (snd d)))"

definition row_consumed :: "real \<Rightarrow> fva_frame option \<Rightarrow> datum \<Rightarrow> bool" where
  "row_consumed tol fv d =
     (np_lt (stored_flux tol fv d) (Fin 0) \<or>
      (np_eq (stored_flux tol fv d) (Fin 0) \<and> snd (snd d) < 0))"

definition bound_cols :: "real \<Rightarrow> fva_frame option \<Rightarrow> datum list \<Rightarrow> (string \<times> column) list" where
  "bound_cols tol fv ds = (case fv of None \<Rightarrow> []
     | Some b \<Rightarrow> [(''minimum'', Floats (map (\<lambda>d. Fin (stored_minimum tol b d)) ds)),
                  (''maximum'', Floats (map (\<lambda>d. Fin (stored_maximum tol b d)) ds))])"

definition flux_rows :: "real \<Rightarrow> fva_frame option \<Rightarrow> datum list \<Rightarrow> frame" where
  "flux_rows tol fv ds =
     \<lparr>index = map fst ds,
      cols = [(''reaction'', Strs (map fst ds)),
              (''flux'', Floats (map (stored_flux tol fv) ds)),
              (''factor'', Floats (map (\<lambda>d. Fin (snd (snd d))) ds))] @ bound_cols tol fv ds\<rparr>"

definition share :: "npfloat list \<Rightarrow> npfloat \<Rightarrow> npfloat" where
  "share fl x = np_div (np_abs x) (np_sum (map np_abs fl))"

definition table_rows :: "real \<Rightarrow> fva_frame option \<Rightarrow> datum list \<Rightarrow> frame" where
  "table_rows tol fv ds =
     \<lparr>index = map fst ds,
      cols = [(''flux'', Floats (map (stored_flux tol fv) ds))] @ bound_cols tol fv ds @
             [(''reaction'', Strs (map fst ds)),
              (''percent'',
               Floats (map (share (map (stored_flux tol fv) ds)) (map (stored_flux tol fv) ds)))]\<rparr>"

section \<open>Concrete summaries\<close>

text \<open>
  The inputs at which the theorems below are instantiated. The first metabolite
  takes part in seven reactions and comes with variability bounds; the second takes
  part in a reaction that carries no flux and in one whose coefficient for it is
  zero. Two more inputs have a NaN flux and an infinite flux. The formatters print
  the row labels of the frame they are given.
\<close>

definition ex_ext :: ext where
  "ex_ext = \<lparr>pfba = (\<lambda>m. None), flux_variability_analysis = (\<lambda>m ids fraction. None),
     shorten = (\<lambda>text width. text),
     frame_to_string = (\<lambda>f float_format column_width. concat (index f)),
     frame_to_html = (\<lambda>f float_format. concat (index f))\<rparr>"

definition ex_model :: model where
  "ex_model = \<lparr>tolerance = 1 / 1000\<rparr>"

definition ex_reaction :: "string \<Rightarrow> real \<Rightarrow> reaction" where
  "ex_reaction i c =
     \<lparr>rid = i, metabolites = [''glc'' \<mapsto> c], build_reaction_string = (\<lambda>names. i @ '' def'')\<rparr>"

definition ex_metabolite :: "reaction list \<Rightarrow> metabolite" where
  "ex_metabolite rs =
     \<lparr>met_id = ''glc'', met_name = ''Glucose'', formula = ''C6H12O6'', met_reactions = rs\<rparr>"

definition ex_reactions :: "reaction list" where
  "ex_reactions = [ex_reaction ''A'' 1, ex_reaction ''B'' (- 2), ex_reaction ''C'' 1,
     ex_reaction ''D'' (- 1), ex_reaction ''E'' 4, ex_reaction ''F'' (1 / 2),
     ex_reaction ''G'' (- 1)]"

definition ex_self :: "reaction list \<Rightarrow> metabolite_summary" where
  "ex_self rs =
     \<lparr>self_model = ex_model, self_metabolite = ex_metabolite rs, self_reactions = rs,
      producing_fluxes = None, consuming_fluxes = None, self_flux = None\<rparr>"

definition ex_solution :: solution where
  "ex_solution = [''A'' \<mapsto> Fin 5, ''B'' \<mapsto> Fin 3, ''C'' \<mapsto> Fin 0,
     ''D'' \<mapsto> Fin (- (1 / 10000)), ''E'' \<mapsto> Fin 1, ''F'' \<mapsto> Fin 1, ''G'' \<mapsto> Fin 0,
     ''Z'' \<mapsto> Fin 1, ''N'' \<mapsto> NaN, ''U'' \<mapsto> PosInf, ''V'' \<mapsto> Fin 1]"

definition ex_bounds :: fva_frame where
  "ex_bounds = [''A'' \<mapsto> (4, 6), ''B'' \<mapsto> (- 2, 4), ''C'' \<mapsto> (0, 0), ''D'' \<mapsto> (- 2, 4),
     ''E'' \<mapsto> (1 / 2000, 1), ''F'' \<mapsto> (1 / 1000, 1), ''G'' \<mapsto> (0, 3)]"

definition ex_idle :: "reaction list" where
  "ex_idle = [ex_reaction ''C'' 1, ex_reaction ''Z'' 0]"

definition ex_stray :: "reaction list" where
  "ex_stray = [ex_reaction ''C'' 1, ex_reaction ''N'' 1, ex_reaction ''Z'' 0]"

definition ex_unbounded :: "reaction list" where
  "ex_unbounded = [ex_reaction ''U'' 1, ex_reaction ''V'' 1]"

definition ex_flux :: frame where
  "ex_flux =
     \<lparr>index = [''A'', ''B'', ''C'', ''D'', ''E'', ''F'', ''G''],
      cols = [(''reaction'', Strs [''A'', ''B'', ''C'', ''D'', ''E'', ''F'', ''G'']),
              (''flux'', Floats [Fin 5, Fin (- 6), Fin 0, Fin 0, Fin 4, Fin (1 / 2), Fin 0]),
              (''factor'',
               Floats [Fin 1, Fin (- 2), Fin 1, Fin (- 1), Fin 4, Fin (1 / 2), Fin (- 1)]),
              (''minimum'',
               Floats [Fin 4, Fin (- 8), Fin 0, Fin (- 4), Fin 0, Fin (1 / 2000), Fin (- 3)]),
              (''maximum'', Floats [Fin 6, Fin 4, Fin 0, Fin 2, Fin 4, Fin (1 / 2), Fin 0])]\<rparr>"

definition ex_producing :: frame where
  "ex_producing =
     \<lparr>index = [''A'', ''C'', ''E'', ''F''],
      cols = [(''flux'', Floats [Fin 5, Fin 0, Fin 4, Fin (1 / 2)]),
              (''minimum'', Floats [Fin 4, Fin 0, Fin 0, Fin (1 / 2000)]),
              (''maximum'', Floats [Fin 6, Fin 0, Fin 4, Fin (1 / 2)]),
              (''reaction'', Strs [''A'', ''C'', ''E'', ''F'']),
              (''percent'', Floats [Fin (10 / 19), Fin 0, Fin (8 / 19), Fin (1 / 19)])]\<rparr>"

definition ex_consuming :: frame where
  "ex_consuming =
     \<lparr>index = [''B'', ''D'', ''G''],
      cols = [(''flux'', Floats [Fin (- 6), Fin 0, Fin 0]),
              (''minimum'', Floats [Fin (- 8), Fin (- 4), Fin (- 3)]),
              (''maximum'', Floats [Fin 4, Fin 2, Fin 0]),
              (''reaction'', Strs [''B'', ''D'', ''G'']),
              (''percent'', Floats [Fin 1, Fin 0, Fin 0])]\<rparr>"

definition ex_summary :: metabolite_summary where
  "ex_summary = (ex_self ex_reactions)
     \<lparr>producing_fluxes := Some ex_producing, consuming_fluxes := Some ex_consuming,
      self_flux := Some ex_flux\<rparr>"

definition ex_idle_summary :: metabolite_summary where
  "ex_idle_summary = (ex_self ex_idle)
     \<lparr>producing_fluxes := Some
        \<lparr>index = [''C''],
         cols = [(''flux'', Floats [Fin 0]), (''reaction'', Strs [''C'']),
                 (''percent'', Floats [NaN])]\<rparr>,
      consuming_fluxes := Some
        \<lparr>index = [],
         cols = [(''flux'', Floats []), (''reaction'', Strs []), (''percent'', Floats [])]\<rparr>,
      self_flux := Some
        \<lparr>index = [''C'', ''Z''],
         cols = [(''reaction'', Strs [''C'', ''Z'']), (''flux'', Floats [Fin 0, Fin 0]),
                 (''factor'', Floats [Fin 1, Fin 0])]\<rparr>\<rparr>"

definition ex_stray_summary :: metabolite_summary where
  "ex_stray_summary = (ex_self ex_stray)
     \<lparr>producing_fluxes := Some
        \<lparr>index = [''C''],
         cols = [(''flux'', Floats [Fin 0]), (''reaction'', Strs [''C'']),
                 (''percent'', Floats [NaN])]\<rparr>,
      consuming_fluxes := Some
        \<lparr>index = [],
         cols = [(''flux'', Floats []), (''reaction'', Strs []), (''percent'', Floats [])]\<rparr>,
      self_flux := Some
        \<lparr>index = [''C'', ''N'', ''Z''],
         cols = [(''reaction'', Strs [''C'', ''N'', ''Z'']),
                 (''flux'', Floats [Fin 0, NaN, Fin 0]),
                 (''factor'', Floats [Fin 1, Fin 1, Fin 0])]\<rparr>\<rparr>"


definition ex_state :: state where
  "ex_state = \<lparr>summary = ex_summary, objects = []\<rparr>"

definition ex_idle_state :: state where
  "ex_idle_state = \<lparr>summary = ex_idle_summary, objects = []\<rparr>"

section \<open>Construction stores the row-wise tables\<close>

lemmas np_defs = np_mul_def np_add_def np_div_def np_abs_def np_lt_def np_eq_def np_gt_def
  np_ge_def mk_zero_def mk_inf_def

lemma map2_same [simp]: "map2 h (map f xs) (map g xs) = map (\<lambda>x. h (f x) (g x)) xs"
  by (induction xs) auto

lemma pick_map [simp]: "pick (map P xs) (map g xs) = map g (filter P xs)"
  by (induction xs) (auto simp: pick_def)

lemma put_map [simp]:
  "put (map P xs) (map g xs) (map h (filter P xs)) = map (\<lambda>x. if P x then h x else g x) xs"
  by (induction xs) auto

lemma put_scalar_map [simp]:
  "put_scalar (map P xs) (map g xs) v = map (\<lambda>x. if P x then v else g x) xs"
  by (simp add: put_scalar_def)

lemma np_where_map [simp]:
  "np_where (map P xs) (map g xs) v = map (\<lambda>x. if P x then g x else v) xs"
  by (simp add: np_where_def)

lemma np_lt_Fin [simp]: "np_lt (Fin a) (Fin b) = (a < b)"
  by (simp add: np_lt_def)
lemma np_gt_Fin [simp]: "np_gt (Fin a) (Fin b) = (b < a)"
  by (simp add: np_gt_def)
lemma np_eq_Fin [simp]: "np_eq (Fin a) (Fin b) = (a = b)"
  by (simp add: np_eq_def)
lemma np_ge_Fin [simp]: "np_ge (Fin a) (Fin b) = (b \<le> a)"
  by (auto simp add: np_ge_def np_lt_def np_eq_def)
lemma np_abs_Fin [simp]: "np_abs (Fin a) = Fin \<bar>a\<bar>"
  by (simp add: np_abs_def)



lemma scale_flux_DataFrame:
  "scale_flux (DataFrame ds idx) =
     Some \<lparr>index = idx,
       cols = [(''reaction'', Strs (map fst ds)),
               (''flux'', Floats (map scaled ds)),
               (''factor'', Floats (map (\<lambda>d. Fin (snd (snd d))) ds))]\<rparr>"
  by (simp add: scale_flux_def DataFrame_def floats_def setcol_def case_prod_beta scaled_def)

lemma without_fva_closed:
  "without_fva model \<lparr>index = idx,
       cols = [(''reaction'', Strs ids), (''flux'', Floats (map g ds)), (''factor'', Floats fa)]\<rparr> =
     Some \<lparr>index = idx,
       cols = [(''reaction'', Strs ids),
               (''flux'', Floats (map (\<lambda>d. np_add (if np_lt (np_abs (g d)) (Fin (tolerance model)) then Fin 0 else g d) (Fin 0)) ds)),
               (''factor'', Floats fa)]\<rparr>"
  by (simp add: without_fva_def floats_def setcol_def Let_def comp_def)

lemma with_fva_closed:
  "with_fva model \<lparr>index = map fst ds,
       cols = [(''reaction'', Strs ids), (''flux'', Floats (map g ds)), (''factor'', Floats (map k ds))]\<rparr> b =
     Some \<lparr>index = map fst ds,
       cols = [(''reaction'', Strs ids),
               (''flux'', Floats (map (\<lambda>d. np_add (if np_ge (np_abs (g d)) (Fin (tolerance model)) then g d else Fin 0) (Fin 0)) ds)),
               (''factor'', Floats (map k ds)),
               (''minimum'', Floats (map (\<lambda>d. np_add
                   (if np_lt (k d) (Fin 0)
                    then np_mul (let x = (case b (fst d) of None \<Rightarrow> NaN | Some (lo, hi) \<Rightarrow> Fin hi) in
                                  if np_ge (np_abs x) (Fin (tolerance model)) then x else Fin 0) (k d)
                    else np_mul (let x = (case b (fst d) of None \<Rightarrow> NaN | Some (lo, hi) \<Rightarrow> Fin lo) in
                                  if np_ge (np_abs x) (Fin (tolerance model)) then x else Fin 0) (k d)) (Fin 0)) ds)),
               (''maximum'', Floats (map (\<lambda>d. np_add
                   (if np_lt (k d) (Fin 0)
                    then np_mul (let x = (case b (fst d) of None \<Rightarrow> NaN | Some (lo, hi) \<Rightarrow> Fin lo) in
                                  if np_ge (np_abs x) (Fin (tolerance model)) then x else Fin 0) (k d)
                    else np_mul (let x = (case b (fst d) of None \<Rightarrow> NaN | Some (lo, hi) \<Rightarrow> Fin hi) in
                                  if np_ge (np_abs x) (Fin (tolerance model)) then x else Fin 0) (k d)) (Fin 0)) ds))]\<rparr>"
  by (simp add: with_fva_def join_def floats_def setcol_def Let_def comp_def cong: if_cong)

lemma minimum_cell:
  "np_add
     (if np_lt (Fin c) (Fin 0)
      then np_mul (let x = (case bo of None \<Rightarrow> NaN | Some (lo, hi) \<Rightarrow> Fin hi) in
                    if np_ge (np_abs x) (Fin t) then x else Fin 0) (Fin c)
      else np_mul (let x = (case bo of None \<Rightarrow> NaN | Some (lo, hi) \<Rightarrow> Fin lo) in
                    if np_ge (np_abs x) (Fin t) then x else Fin 0) (Fin c)) (Fin 0) =
   Fin (case bo of None \<Rightarrow> 0 | Some (lo, hi) \<Rightarrow> (if c < 0 then snap t hi else snap t lo) * c)"
proof (cases bo)
  case None
  then show ?thesis by (simp add: np_defs)
next
  case (Some p)
  obtain lo hi where "p = (lo, hi)" by (cases p)
  with Some show ?thesis by (simp add: np_defs snap_def)
qed

lemma maximum_cell:
  "np_add
     (if np_lt (Fin c) (Fin 0)
      then np_mul (let x = (case bo of None \<Rightarrow> NaN | Some (lo, hi) \<Rightarrow> Fin lo) in
                    if np_ge (np_abs x) (Fin t) then x else Fin 0) (Fin c)
      else np_mul (let x = (case bo of None \<Rightarrow> NaN | Some (lo, hi) \<Rightarrow> Fin hi) in
                    if np_ge (np_abs x) (Fin t) then x else Fin 0) (Fin c)) (Fin 0) =
   Fin (case bo of None \<Rightarrow> 0 | Some (lo, hi) \<Rightarrow> (if c < 0 then snap t lo else snap t hi) * c)"
proof (cases bo)
  case None
  then show ?thesis by (simp add: np_defs)
next
  case (Some p)
  obtain lo hi where "p = (lo, hi)" by (cases p)
  with Some show ?thesis by (simp add: np_defs snap_def)
qed

lemma without_fva_rows:
  "without_fva model \<lparr>index = map fst ds,
       cols = [(''reaction'', Strs (map fst ds)), (''flux'', Floats (map scaled ds)),
               (''factor'', Floats (map (\<lambda>d. Fin (snd (snd d))) ds))]\<rparr> =
     Some (flux_rows (tolerance model) None ds)"
  unfolding without_fva_closed
  by (simp add: flux_rows_def bound_cols_def stored_flux_def cong: if_cong)

lemma with_fva_rows:
  "with_fva model \<lparr>index = map fst ds,
       cols = [(''reaction'', Strs (map fst ds)), (''flux'', Floats (map scaled ds)),
               (''factor'', Floats (map (\<lambda>d. Fin (snd (snd d))) ds))]\<rparr> b =
     Some (flux_rows (tolerance model) (Some b) ds)"
  unfolding with_fva_closed minimum_cell maximum_cell
  by (simp add: flux_rows_def bound_cols_def stored_flux_def stored_minimum_def
      stored_maximum_def cong: if_cong)

lemma is_produced_rows:
  "is_produced (flux_rows tol fv ds) = Some (map (row_produced tol fv) ds)"
  by (simp add: is_produced_def flux_rows_def floats_def row_produced_def)

lemma is_consumed_rows:
  "is_consumed (flux_rows tol fv ds) = Some (map (row_consumed tol fv) ds)"
  by (simp add: is_consumed_def flux_rows_def floats_def row_consumed_def)

lemma fluxes_table_rows:
  "fluxes_table (flux_rows tol fv ds) (map P ds) (fv \<noteq> None) = Some (table_rows tol fv (filter P ds))"
  by (cases fv)
    (simp_all add: fluxes_table_def loc_def loc_rows_def select_def flux_rows_def bound_cols_def
      table_rows_def floats_def setcol_def share_def)

lemma those_map_Some:
  "those (map f xs) = Some ys \<Longrightarrow>
     length ys = length xs \<and> (\<forall>i<length xs. f (xs ! i) = Some (ys ! i))"
proof (induction xs arbitrary: ys)
  case Nil
  then show ?case by simp
next
  case (Cons x xs)
  then obtain y ys' where y: "f x = Some y" and ys': "those (map f xs) = Some ys'"
    and ys: "ys = y # ys'"
    by (auto split: option.splits)
  from Cons.IH [OF ys'] y ys show ?case
    by (auto simp: nth_Cons split: nat.splits)
qed

lemma those_map_total:
  "(\<And>x. x \<in> set xs \<Longrightarrow> f x \<noteq> None) \<Longrightarrow> \<exists>ys. those (map f xs) = Some ys"
  by (induction xs) (auto split: option.splits)

lemma flux_data_Some:
  assumes "flux_data self sol = Some ds"
  shows "length ds = length (self_reactions self)"
    and "map fst ds = map rid (self_reactions self)"
    and "i < length (self_reactions self) \<Longrightarrow>
           fst (ds ! i) = rid (self_reactions self ! i) \<and>
           sol (rid (self_reactions self ! i)) = Some (fst (snd (ds ! i))) \<and>
           get_coefficient (self_reactions self ! i) (met_id (self_metabolite self))
             = Some (snd (snd (ds ! i)))"
proof -
  let ?f = "\<lambda>r. do {
              v \<leftarrow> sol (rid r);
              c \<leftarrow> get_coefficient r (met_id (self_metabolite self));
              Some (rid r, v, c)
            }"
  from assms have th: "those (map ?f (self_reactions self)) = Some ds"
    by (simp add: flux_data_def)
  note T = those_map_Some [OF th]
  show len: "length ds = length (self_reactions self)" using T by simp
  have row: "?f (self_reactions self ! j) = Some (ds ! j)" if "j < length (self_reactions self)" for j
    using T that by simp
  have tup: "\<exists>v c. sol (rid (self_reactions self ! j)) = Some v \<and>
      get_coefficient (self_reactions self ! j) (met_id (self_metabolite self)) = Some c \<and>
      ds ! j = (rid (self_reactions self ! j), v, c)"
    if "j < length (self_reactions self)" for j
    using row [OF that] by (auto simp: bind_eq_Some_conv)
  have fst_row: "fst (ds ! j) = rid (self_reactions self ! j)" if "j < length (self_reactions self)" for j
    using tup [OF that] by auto
  show "map fst ds = map rid (self_reactions self)"
    by (rule nth_equalityI) (simp_all add: len fst_row)
  show "fst (ds ! i) = rid (self_reactions self ! i) \<and>
           sol (rid (self_reactions self ! i)) = Some (fst (snd (ds ! i))) \<and>
           get_coefficient (self_reactions self ! i) (met_id (self_metabolite self))
             = Some (snd (snd (ds ! i)))" if "i < length (self_reactions self)"
    using tup [OF that] by auto
qed

lemma flux_data_total:
  assumes "\<And>r. r \<in> set (self_reactions self) \<Longrightarrow>
     sol (rid r) \<noteq> None \<and> get_coefficient r (met_id (self_metabolite self)) \<noteq> None"
  shows "\<exists>ds. flux_data self sol = Some ds"
  unfolding flux_data_def
  by (rule those_map_total) (use assms in \<open>auto simp: bind_eq_None_conv\<close>)

lemma generate_rows:
  "generate ext self model solution fva = Some s \<longleftrightarrow>
     (\<exists>sol fv ds.
        solution_or_pfba ext model solution = Some sol \<and>
        fva_or_analysis ext self model fva = Some fv \<and>
        flux_data self sol = Some ds \<and>
        s = self\<lparr>producing_fluxes :=
                    Some (table_rows (tolerance model) fv (filter (row_produced (tolerance model) fv) ds)),
                 consuming_fluxes :=
                    Some (table_rows (tolerance model) fv (filter (row_consumed (tolerance model) fv) ds)),
                 self_flux := Some (flux_rows (tolerance model) fv ds)\<rparr>)"
proof -
  have body: "(scale_flux (DataFrame ds (map rid (self_reactions self))) \<bind> (\<lambda>flux.
            (case fv of Some b \<Rightarrow> with_fva model flux b | None \<Rightarrow> without_fva model flux) \<bind> (\<lambda>flux.
            is_produced flux \<bind> (\<lambda>produced.
            fluxes_table flux produced (fv \<noteq> None) \<bind> (\<lambda>producing.
            is_consumed flux \<bind> (\<lambda>consumed.
            fluxes_table flux consumed (fv \<noteq> None) \<bind> (\<lambda>consuming.
            Some (self\<lparr>producing_fluxes := Some producing, consuming_fluxes := Some consuming,
                self_flux := Some flux\<rparr>)))))))) =
        Some (self\<lparr>producing_fluxes :=
                    Some (table_rows (tolerance model) fv (filter (row_produced (tolerance model) fv) ds)),
                 consuming_fluxes :=
                    Some (table_rows (tolerance model) fv (filter (row_consumed (tolerance model) fv) ds)),
                 self_flux := Some (flux_rows (tolerance model) fv ds)\<rparr>)"
    if "flux_data self sol = Some ds" for sol ds fv
  proof -
    have idx: "map rid (self_reactions self) = map fst ds"
      using flux_data_Some(2) [OF that] by simp
    show ?thesis
      unfolding idx scale_flux_DataFrame bind.bind_lunit
      by (cases fv) (simp_all only: option.case with_fva_rows without_fva_rows bind.bind_lunit
          is_produced_rows is_consumed_rows fluxes_table_rows)
  qed
  have "generate ext self model solution fva =
      solution_or_pfba ext model solution \<bind> (\<lambda>sol.
      fva_or_analysis ext self model fva \<bind> (\<lambda>fv.
      flux_data self sol \<bind> (\<lambda>ds.
      Some (self\<lparr>producing_fluxes :=
                    Some (table_rows (tolerance model) fv (filter (row_produced (tolerance model) fv) ds)),
                 consuming_fluxes :=
                    Some (table_rows (tolerance model) fv (filter (row_consumed (tolerance model) fv) ds)),
                 self_flux := Some (flux_rows (tolerance model) fv ds)\<rparr>))))"
    unfolding generate_def
    apply (rule Option.bind_cong [OF refl])
    apply (rule Option.bind_cong [OF refl])
    apply (rule Option.bind_cong [OF refl])
    apply (erule body)
    done
  then show ?thesis
    by (auto simp: bind_eq_Some_conv)
qed

lemma index_flux_rows: "index (flux_rows tol fv ds) = map fst ds"
  by (simp add: flux_rows_def)

lemma index_table_rows: "index (table_rows tol fv ds) = map fst ds"
  by (simp add: table_rows_def)

lemma floats_flux_rows:
  "floats (flux_rows tol fv ds) ''flux'' = Some (map (stored_flux tol fv) ds)"
  "floats (flux_rows tol fv ds) ''factor'' = Some (map (\<lambda>d. Fin (snd (snd d))) ds)"
  by (simp_all add: flux_rows_def floats_def)

lemma floats_flux_rows_bounds:
  "floats (flux_rows tol (Some b) ds) ''minimum'' = Some (map (\<lambda>d. Fin (stored_minimum tol b d)) ds)"
  "floats (flux_rows tol (Some b) ds) ''maximum'' = Some (map (\<lambda>d. Fin (stored_maximum tol b d)) ds)"
  by (simp_all add: flux_rows_def bound_cols_def floats_def)

lemma floats_table_rows:
  "floats (table_rows tol fv ds) ''flux'' = Some (map (stored_flux tol fv) ds)"
  "floats (table_rows tol fv ds) ''percent'' =
     Some (map (share (map (stored_flux tol fv) ds)) (map (stored_flux tol fv) ds))"
  by (cases fv; simp add: table_rows_def bound_cols_def floats_def)+

lemma floats_table_rows_bounds:
  "floats (table_rows tol (Some b) ds) ''minimum'' = Some (map (\<lambda>d. Fin (stored_minimum tol b d)) ds)"
  "floats (table_rows tol (Some b) ds) ''maximum'' = Some (map (\<lambda>d. Fin (stored_maximum tol b d)) ds)"
  by (simp_all add: table_rows_def bound_cols_def floats_def)

lemma columns_flux_rows:
  "columns (flux_rows tol fv ds) =
     [''reaction'', ''flux'', ''factor''] @ (if fv = None then [] else [''minimum'', ''maximum''])"
  by (cases fv) (simp_all add: columns_def flux_rows_def bound_cols_def)

lemma columns_table_rows:
  "columns (table_rows tol fv ds) =
     ''flux'' # (if fv = None then [] else [''minimum'', ''maximum'']) @ [''reaction'', ''percent'']"
  by (cases fv) (simp_all add: columns_def table_rows_def bound_cols_def)

lemma strs_table_rows: "strs (table_rows tol fv ds) ''reaction'' = Some (map fst ds)"
  by (cases fv) (simp_all add: table_rows_def bound_cols_def strs_def)

lemma sign_of_cell:
  "\<not> (np_gt x (Fin 0) \<and> np_lt x (Fin 0))"
  "np_eq x (Fin 0) \<Longrightarrow> \<not> np_gt x (Fin 0) \<and> \<not> np_lt x (Fin 0)"
  "\<not> isnan x \<Longrightarrow> np_gt x (Fin 0) \<or> np_lt x (Fin 0) \<or> np_eq x (Fin 0)"
  "isnan x \<Longrightarrow> \<not> np_gt x (Fin 0) \<and> \<not> np_lt x (Fin 0) \<and> \<not> np_eq x (Fin 0)"
  by (cases x; auto simp: np_gt_def np_lt_def np_eq_def)+

lemma row_not_both: "\<not> (row_produced tol fv d \<and> row_consumed tol fv d)"
  using sign_of_cell(1,2) [of "stored_flux tol fv d"]
  by (auto simp: row_produced_def row_consumed_def)

lemma row_in_one:
  "snd (snd d) \<noteq> 0 \<Longrightarrow> \<not> isnan (stored_flux tol fv d) \<Longrightarrow>
     row_produced tol fv d \<noteq> row_consumed tol fv d"
  using sign_of_cell(1,2,3) [of "stored_flux tol fv d"]
  by (auto simp: row_produced_def row_consumed_def)

lemma row_nan_neither:
  "isnan (stored_flux tol fv d) \<Longrightarrow> \<not> row_produced tol fv d \<and> \<not> row_consumed tol fv d"
  using sign_of_cell(4) [of "stored_flux tol fv d"]
  by (auto simp: row_produced_def row_consumed_def)

lemma row_not_nan:
  "row_produced tol fv d \<or> row_consumed tol fv d \<Longrightarrow> \<not> isnan (stored_flux tol fv d)"
  using row_nan_neither [of tol fv d] by blast

lemma scaled_zero_factor: "snd (snd d) = 0 \<Longrightarrow> isnan (scaled d) \<or> np_iszero (scaled d)"
  by (cases "fst (snd d)") (auto simp: scaled_def np_mul_def mk_zero_def)

lemma snapped_zero_or_nan:
  assumes "isnan s \<or> np_iszero s"
  shows "isnan (np_add (if np_lt (np_abs s) (Fin t) then Fin 0 else s) (Fin 0)) \<or>
           np_add (if np_lt (np_abs s) (Fin t) then Fin 0 else s) (Fin 0) = Fin 0"
    and "isnan (np_add (if np_ge (np_abs s) (Fin t) then s else Fin 0) (Fin 0)) \<or>
           np_add (if np_ge (np_abs s) (Fin t) then s else Fin 0) (Fin 0) = Fin 0"
  using assms by (cases s; auto simp: np_add_def)+

lemma stored_zero_factor:
  "snd (snd d) = 0 \<Longrightarrow> isnan (stored_flux tol fv d) \<or> stored_flux tol fv d = Fin 0"
  using snapped_zero_or_nan [OF scaled_zero_factor, of d tol]
  by (cases fv) (simp_all add: stored_flux_def)

lemma row_zero_factor_neither:
  "snd (snd d) = 0 \<Longrightarrow> \<not> row_produced tol fv d \<and> \<not> row_consumed tol fv d"
  using stored_zero_factor [of d tol fv] row_nan_neither [of tol fv d]
  by (auto simp: row_produced_def row_consumed_def)

lemma np_add_zero_not_negzero: "np_add x (Fin 0) \<noteq> NegZero"
  by (cases x) (auto simp: np_add_def)

lemma stored_flux_not_negzero: "stored_flux tol fv d \<noteq> NegZero"
  by (cases fv) (simp_all add: stored_flux_def np_add_zero_not_negzero)

lemma np_lt_not_ge: "np_lt x y \<Longrightarrow> \<not> np_ge x y"
  by (cases x; cases y; auto simp: np_lt_def np_ge_def np_eq_def)

lemma stored_flux_below:
  "np_lt (np_abs (scaled d)) (Fin tol) \<Longrightarrow> stored_flux tol fv d = Fin 0"
  by (cases fv) (simp_all add: stored_flux_def np_lt_not_ge np_add_def)

lemma scaled_Fin: "fst (snd d) = Fin r \<Longrightarrow>
    \<not> isnan (scaled d) \<and> \<not> isinf (scaled d) \<and> fval (scaled d) = r * snd (snd d)"
  by (auto simp: scaled_def np_mul_def mk_zero_def)

lemma stored_flux_Fin:
  assumes "fst (snd d) = Fin r"
  shows "stored_flux tol fv d = Fin (snap tol (r * snd (snd d)))"
proof -
  from scaled_Fin [OF assms] have s: "scaled d = Fin (r * snd (snd d)) \<or>
      (scaled d = NegZero \<and> r * snd (snd d) = 0)"
    by (cases "scaled d") auto
  then show ?thesis
    by (cases fv) (auto simp: stored_flux_def snap_def np_defs)
qed




lemma np_div_zero_zero: "np_div (Fin 0) (Fin 0) = NaN"
  by (simp add: np_div_def)

lemma np_div_not_negzero: "\<not> signbit a \<Longrightarrow> \<not> signbit b \<Longrightarrow> np_div a b \<noteq> NegZero"
  by (cases a; cases b; auto simp: np_div_def mk_zero_def mk_inf_def zero_le_divide_iff)

lemma signbit_abs: "\<not> signbit (np_abs x)"
  by (cases x) (simp_all add: np_abs_def)

lemma np_add_nonneg:
  assumes "\<not> signbit x" "\<not> isnan x" "\<not> signbit y" "\<not> isnan y"
  shows "\<not> signbit (np_add x y)" "\<not> isnan (np_add x y)"
    "np_iszero (np_add x y) \<longleftrightarrow> np_iszero x \<and> np_iszero y"
    "isinf (np_add x y) \<longleftrightarrow> isinf x \<or> isinf y"
  using assms by (cases x; cases y; auto simp: np_add_def)+

lemma foldl_add_nonneg:
  assumes "\<not> signbit a" "\<not> isnan a" "\<forall>y\<in>set ys. \<not> signbit y \<and> \<not> isnan y"
  shows "\<not> signbit (foldl np_add a ys) \<and> \<not> isnan (foldl np_add a ys) \<and>
         (np_iszero (foldl np_add a ys) \<longleftrightarrow> np_iszero a \<and> (\<forall>y\<in>set ys. np_iszero y)) \<and>
         (isinf (foldl np_add a ys) \<longleftrightarrow> isinf a \<or> (\<exists>y\<in>set ys. isinf y))"
  using assms
proof (induction ys arbitrary: a)
  case Nil
  then show ?case by simp
next
  case (Cons y ys)
  from Cons.prems have y: "\<not> signbit y" "\<not> isnan y" by simp_all
  note step = np_add_nonneg [OF Cons.prems(1,2) y]
  from Cons.IH [OF step(1,2)] Cons.prems(3) step(3,4) show ?case by auto
qed

lemma total_nonneg:
  "\<not> signbit (np_sum (map np_abs fl))" "\<not> isnan (np_sum (map np_abs fl))"
  "np_iszero (np_sum (map np_abs fl)) \<longleftrightarrow> (\<forall>x\<in>set fl. isnan x \<or> np_iszero x)"
  "isinf (np_sum (map np_abs fl)) \<longleftrightarrow> (\<exists>x\<in>set fl. isinf x)"
proof -
  let ?ys = "filter (\<lambda>x. \<not> isnan x) (map np_abs fl)"
  have ys: "\<forall>y\<in>set ?ys. \<not> signbit y \<and> \<not> isnan y" by (auto simp: signbit_abs)
  have a: "\<not> signbit (Fin 0)" "\<not> isnan (Fin 0)" by simp_all
  note F = foldl_add_nonneg [OF a ys]
  from F show "\<not> signbit (np_sum (map np_abs fl))" "\<not> isnan (np_sum (map np_abs fl))"
    by (simp_all add: np_sum_def)
  have abs_nan: "isnan (np_abs x) = isnan x" and abs_zero: "np_iszero (np_abs x) = np_iszero x" for x
    by (cases x; simp add: np_abs_def)+
  have "(\<forall>y\<in>set ?ys. np_iszero y) \<longleftrightarrow> (\<forall>x\<in>set fl. isnan x \<or> np_iszero x)"
    by (auto simp: abs_nan abs_zero)
  with F show "np_iszero (np_sum (map np_abs fl)) \<longleftrightarrow> (\<forall>x\<in>set fl. isnan x \<or> np_iszero x)"
    by (simp add: np_sum_def)
  have abs_inf: "isinf (np_abs x) = isinf x" for x
    by (cases x; simp add: np_abs_def)
  have "(\<exists>y\<in>set ?ys. isinf y) \<longleftrightarrow> (\<exists>x\<in>set fl. isinf x)"
  proof
    assume "\<exists>y\<in>set ?ys. isinf y"
    then show "\<exists>x\<in>set fl. isinf x" by (auto simp: abs_inf)
  next
    assume "\<exists>x\<in>set fl. isinf x"
    then obtain x where x: "x \<in> set fl" "isinf x" by blast
    have inf: "isinf (np_abs x)" using x(2) by (simp add: abs_inf)
    have "\<not> isnan (np_abs x)" using x(2) by (cases x) (simp_all add: np_abs_def)
    with x(1) have "np_abs x \<in> set ?ys" by simp
    with inf show "\<exists>y\<in>set ?ys. isinf y" by blast
  qed
  with F show "isinf (np_sum (map np_abs fl)) \<longleftrightarrow> (\<exists>x\<in>set fl. isinf x)"
    by (simp add: np_sum_def)
qed


lemma stored_flux_with_bounds_not_nan: "\<not> isnan (stored_flux tol (Some b) d)"
  by (cases "scaled d") (auto simp: stored_flux_def np_add_def np_ge_def np_lt_def np_eq_def np_abs_def)

lemma bounds_given: "fva_or_analysis ext self model fva = Some fv \<Longrightarrow> (fv = None) = (fva = None)"
  by (auto simp: fva_or_analysis_def split: option.splits fva_arg.splits)

lemma share_not_negzero: "share fl x \<noteq> NegZero"
  unfolding share_def by (rule np_div_not_negzero [OF signbit_abs total_nonneg(1)])

lemma share_zero_total:
  assumes "np_iszero (np_sum (map np_abs fl))" and "x \<in> set fl" and "\<not> isnan x"
  shows "share fl x = NaN"
proof -
  from assms total_nonneg(3) [of fl] have "np_iszero x" by blast
  then have x: "np_abs x = Fin 0" by (cases x) (simp_all add: np_abs_def)
  from assms(1) total_nonneg(1,2) [of fl] have "np_sum (map np_abs fl) = Fin 0"
    by (cases "np_sum (map np_abs fl)") auto
  with x show ?thesis by (simp add: share_def np_div_zero_zero)
qed



lemma flux_rows_no_negzero:
  assumes "floats (flux_rows tol fv ds) name = Some xs"
  shows "NegZero \<notin> set xs"
proof -
  have "NegZero \<notin> set (map (stored_flux tol fv) ds)"
    using stored_flux_not_negzero [of tol fv] by (auto simp: image_iff) metis
  then show ?thesis using assms
    by (cases fv) (auto simp: flux_rows_def bound_cols_def floats_def split: if_splits)
qed

lemma table_rows_no_negzero:
  assumes "floats (table_rows tol fv ds) name = Some xs"
  shows "NegZero \<notin> set xs"
proof -
  have "NegZero \<notin> set (map (share (map (stored_flux tol fv) ds)) (map (stored_flux tol fv) ds))"
    using share_not_negzero by (auto simp: image_iff) metis
  moreover have "NegZero \<notin> set (map (stored_flux tol fv) ds)"
    using stored_flux_not_negzero [of tol fv] by (auto simp: image_iff) metis
  ultimately show ?thesis using assms
    by (cases fv) (auto simp: table_rows_def bound_cols_def floats_def split: if_splits)
qed

lemma flux_data_row:
  assumes "flux_data self sol = Some ds" and "i < length (self_reactions self)"
    and "sol (rid (self_reactions self ! i)) = Some v"
    and "get_coefficient (self_reactions self ! i) (met_id (self_metabolite self)) = Some c"
  shows "ds ! i = (rid (self_reactions self ! i), v, c)"
  using flux_data_Some(3) [OF assms(1,2)] assms(3,4)
  by (cases "ds ! i") auto

lemma plus_zero_clears_negative_zero:
  "np_mul (Fin 0) (Fin (- 1)) = NegZero" "np_add NegZero (Fin 0) = Fin 0"
  by (simp_all add: np_mul_def np_add_def mk_zero_def)

lemma bind_weak_cong: "m = m' \<Longrightarrow> Option.bind m f = Option.bind m' f"
  by simp

lemmas frame_defs = floats_def strs_def setcol_def pick_def put_scalar_def loc_rows_def
  select_def loc_def columns_def DataFrame_def join_def np_where_def

lemmas generate_defs = generate_def solution_or_pfba_def fva_or_analysis_def flux_data_def
  get_coefficient_def scale_flux_def with_fva_def without_fva_def is_produced_def
  is_consumed_def fluxes_table_def np_sum_def

lemmas ex_defs = ex_ext_def ex_model_def ex_reaction_def ex_metabolite_def ex_reactions_def
  ex_self_def ex_solution_def ex_bounds_def ex_idle_def ex_stray_def ex_unbounded_def

lemma ex_generate:
  "generate ex_ext (ex_self ex_reactions) ex_model (Some ex_solution) (Some (Bounds ex_bounds))
     = Some ex_summary"
  by (simp add: generate_defs frame_defs np_defs ex_defs ex_summary_def ex_flux_def
      ex_producing_def ex_consuming_def cong: bind_weak_cong)

lemma ex_idle_generate:
  "generate ex_ext (ex_self ex_idle) ex_model (Some ex_solution) None = Some ex_idle_summary"
  by (simp add: generate_defs frame_defs np_defs ex_defs ex_idle_summary_def cong: bind_weak_cong)

lemma ex_stray_generate:
  "generate ex_ext (ex_self ex_stray) ex_model (Some ex_solution) None = Some ex_stray_summary"
  by (simp add: generate_defs frame_defs np_defs ex_defs ex_stray_summary_def cong: bind_weak_cong)


lemma ex_solution_given:
  "solution_or_pfba ex_ext ex_model (Some ex_solution) = Some ex_solution"
  by (simp add: solution_or_pfba_def)

lemma ex_bounds_given:
  "fva_or_analysis ex_ext (ex_self ex_reactions) ex_model (Some (Bounds ex_bounds))
     = Some (Some ex_bounds)"
  by (simp add: fva_or_analysis_def)

lemma ex_idle_no_bounds:
  "fva_or_analysis ex_ext (ex_self ex_idle) ex_model None = Some None"
  by (simp add: fva_or_analysis_def)

lemma ex_row:
  "ex_solution (rid (self_reactions (ex_self ex_reactions) ! 2)) = Some (Fin 0)"
  "get_coefficient (self_reactions (ex_self ex_reactions) ! 2)
     (met_id (self_metabolite (ex_self ex_reactions))) = Some 1"
  "ex_bounds (rid (self_reactions (ex_self ex_reactions) ! 2)) = Some (0, 0)"
  "ex_solution (rid (self_reactions (ex_self ex_reactions) ! 3)) = Some (Fin (- (1 / 10000)))"
  "get_coefficient (self_reactions (ex_self ex_reactions) ! 3)
     (met_id (self_metabolite (ex_self ex_reactions))) = Some (- 1)"
  "ex_bounds (rid (self_reactions (ex_self ex_reactions) ! 3)) = Some (- 2, 4)"
  "ex_solution (rid (self_reactions (ex_self ex_reactions) ! 4)) = Some (Fin 1)"
  "get_coefficient (self_reactions (ex_self ex_reactions) ! 4)
     (met_id (self_metabolite (ex_self ex_reactions))) = Some 4"
  "ex_bounds (rid (self_reactions (ex_self ex_reactions) ! 4)) = Some (1 / 2000, 1)"
  "ex_solution (rid (self_reactions (ex_self ex_reactions) ! 5)) = Some (Fin 1)"
  "get_coefficient (self_reactions (ex_self ex_reactions) ! 5)
     (met_id (self_metabolite (ex_self ex_reactions))) = Some (1 / 2)"
  "ex_bounds (rid (self_reactions (ex_self ex_reactions) ! 5)) = Some (1 / 1000, 1)"
  "ex_solution (rid (self_reactions (ex_self ex_reactions) ! 6)) = Some (Fin 0)"
  "get_coefficient (self_reactions (ex_self ex_reactions) ! 6)
     (met_id (self_metabolite (ex_self ex_reactions))) = Some (- 1)"
  "ex_bounds (rid (self_reactions (ex_self ex_reactions) ! 6)) = Some (0, 3)"
  by (simp_all add: ex_defs get_coefficient_def)

lemma ex_length: "length (self_reactions (ex_self ex_reactions)) = 7"
  by (simp add: ex_self_def ex_reactions_def)

lemma ex_tables:
  "self_flux ex_summary = Some ex_flux"
  "producing_fluxes ex_summary = Some ex_producing"
  "consuming_fluxes ex_summary = Some ex_consuming"
  by (simp_all add: ex_summary_def ex_self_def)

section \<open>Rendering works on new frames\<close>

lemma index_setcol [simp]: "index (setcol f c v) = index f"
  by (simp add: setcol_def)

lemma index_loc_rows [simp]: "index (loc_rows f bs) = pick bs (index f)"
  by (simp add: loc_rows_def)

lemma select_index: "select f names = Some out \<Longrightarrow> index out = index f"
  by (auto simp: select_def)

lemma summary_new [simp]: "summary (snd (new st f)) = summary st"
  by (simp add: new_def)

lemma deref_new [simp]: "deref (snd (new st f)) (fst (new st f)) = Some f"
  by (simp add: new_def deref_def)

lemma display_flux_Some:
  assumes "display_flux st r names t = Some (r', st')"
  shows "\<exists>f bs g out. deref st r = Some f \<and> shown f t = Some bs \<and>
           r' = Object (Suc (length (objects st))) \<and>
           st' = st\<lparr>objects := objects st @ [g, out]\<rparr> \<and>
           index out = pick bs (index f)"
  using assms
  by (auto simp: display_flux_def bind_eq_Some_conv new_def assign_def deref_def Let_def
      nth_append dest!: select_index split: if_splits)
    blast+

lemma display_flux_summary:
  "display_flux st r names t = Some (r', st') \<Longrightarrow>
     summary st' = summary st \<and> (\<exists>n. r' = Object n)"
  by (drule display_flux_Some) auto

lemma table_summary:
  assumes "string_table ext st (Object n) float_format column_width = Some (out, st')"
  shows "summary st' = summary st"
  using assms
  by (auto simp: string_table_def bind_eq_Some_conv assign_def Let_def)

lemma html_summary:
  assumes "html_table ext st (Object n) float_format = Some (out, st')"
  shows "summary st' = summary st"
  using assms
  by (auto simp: html_table_def bind_eq_Some_conv assign_def Let_def)

lemma string_table_writes_through:
  "producing_fluxes (summary st) = Some f \<Longrightarrow>
   string_table ext st ProducingFluxes float_format column_width = Some (out, st') \<Longrightarrow>
   producing_fluxes (summary st') = Some (retitle f)"
  by (auto simp: string_table_def bind_eq_Some_conv assign_def deref_def Let_def)

lemma np_ge_abs_antitone:
  "t1 \<le> t2 \<Longrightarrow> np_ge (np_abs x) (Fin t2) \<Longrightarrow> np_ge (np_abs x) (Fin t1)"
  by (cases x) (auto simp: np_ge_def np_lt_def np_eq_def np_abs_def)

lemma shown_antitone:
  assumes "t1 \<le> t2" and "shown f t1 = Some b1" and "shown f t2 = Some b2"
  shows "length b1 = length b2 \<and> (\<forall>i<length b2. b2 ! i \<longrightarrow> b1 ! i)"
proof (cases "has_bounds f")
  case True
  with assms(2,3) obtain fl mn mx where
    b1: "b1 = map2 (\<or>) (map2 (\<or>) (map (\<lambda>x. np_ge (np_abs x) (Fin t1)) fl)
                           (map (\<lambda>x. np_ge (np_abs x) (Fin t1)) mn))
                (map (\<lambda>x. np_ge (np_abs x) (Fin t1)) mx)"
    and b2: "b2 = map2 (\<or>) (map2 (\<or>) (map (\<lambda>x. np_ge (np_abs x) (Fin t2)) fl)
                           (map (\<lambda>x. np_ge (np_abs x) (Fin t2)) mn))
                (map (\<lambda>x. np_ge (np_abs x) (Fin t2)) mx)"
    by (auto simp: shown_def bind_eq_Some_conv)
  show ?thesis
    using np_ge_abs_antitone [OF assms(1)] by (auto simp: b1 b2)
next
  case False
  with assms(2,3) obtain fl where
    b1: "b1 = map (\<lambda>x. np_ge (np_abs x) (Fin t1)) fl"
    and b2: "b2 = map (\<lambda>x. np_ge (np_abs x) (Fin t2)) fl"
    by (auto simp: shown_def bind_eq_Some_conv)
  show ?thesis
    using np_ge_abs_antitone [OF assms(1)] by (auto simp: b1 b2)
qed

lemma pick_antitone:
  "length b1 = length b2 \<Longrightarrow> (\<forall>i<length b2. b2 ! i \<longrightarrow> b1 ! i) \<Longrightarrow>
     set (pick b2 xs) \<subseteq> set (pick b1 xs) \<and> length (pick b2 xs) \<le> length (pick b1 xs)"
proof (induction b1 b2 arbitrary: xs rule: list_induct2)
  case Nil
  then show ?case by (simp add: pick_def)
next
  case (Cons x b1 y b2)
  have tl: "\<forall>i<length b2. b2 ! i \<longrightarrow> b1 ! i"
    using Cons.prems by (metis Suc_less_eq length_Cons nth_Cons_Suc)
  have hd: "y \<longrightarrow> x" using Cons.prems by (metis length_Cons nth_Cons_0 zero_less_Suc)
  show ?case
  proof (cases xs)
    case Nil
    then show ?thesis by (simp add: pick_def)
  next
    case (Cons z zs)
    from Cons.IH [OF tl, of zs] hd show ?thesis
      by (auto simp: pick_def Cons)
  qed
qed

lemmas render_defs = display_flux_def shown_def has_bounds_def deref_def new_def assign_def
  html_table_def string_table_def retitle_def to_html_def to_string_def normalize_cutoff_def
  nl_def

lemmas ex_state_defs = ex_state_def ex_idle_state_def ex_summary_def ex_idle_summary_def
  ex_flux_def ex_producing_def ex_consuming_def

lemma to_string_widens:
  "threshold \<le> tolerance (self_model (summary st)) \<Longrightarrow>
   to_string ext st names threshold float_format column_width =
   to_string ext st names (tolerance (self_model (summary st))) float_format column_width"
  by (simp add: to_string_def normalize_cutoff_def max_def)

lemma ex_to_string:
  "\<exists>out st'. to_string ex_ext ex_state False (1 / 1000000) ''.4G'' 79 = Some (out, st')"
  by (simp add: render_defs ex_state_defs ex_defs frame_defs np_defs Let_def
      cong: bind_weak_cong)

lemma ex_to_html:
  "\<exists>out st'. to_html ex_ext ex_state True 0 ''.4G'' = Some (out, st')"
  by (simp add: render_defs ex_state_defs ex_defs frame_defs np_defs Let_def
      cong: bind_weak_cong)

lemma ex_display_flux:
  "\<exists>r st'. display_flux ex_state ProducingFluxes False (1 / 1000) = Some (r, st')"
  "\<exists>r st'. display_flux ex_state ProducingFluxes False 5 = Some (r, st')"
  by (simp_all add: render_defs ex_state_defs ex_defs frame_defs np_defs Let_def
      cong: bind_weak_cong)

lemma ex_shown:
  "shown ex_producing (1 / 1000) = Some [True, False, True, True]"
  "shown ex_producing 5 = Some [True, False, False, False]"
  by (simp_all add: shown_def has_bounds_def ex_producing_def frame_defs np_defs)

lemma ex_deref:
  "deref ex_state ProducingFluxes = Some ex_producing"
  by (simp add: deref_def ex_state_def ex_tables)

lemma shown_rows:
  assumes "shown f t = Some b"
  shows "\<exists>fl. floats f ''flux'' = Some fl \<and>
     (if has_bounds f
      then \<exists>mn mx. floats f ''minimum'' = Some mn \<and> floats f ''maximum'' = Some mx \<and>
             (\<forall>i<length b. b ! i = (np_ge (np_abs (fl ! i)) (Fin t) \<or>
                                     np_ge (np_abs (mn ! i)) (Fin t) \<or>
                                     np_ge (np_abs (mx ! i)) (Fin t)))
      else length b = length fl \<and> (\<forall>i<length b. b ! i = np_ge (np_abs (fl ! i)) (Fin t)))"
  using assms by (cases "has_bounds f") (auto simp: shown_def bind_eq_Some_conv)

lemma reactions_lookup:
  "i \<in> rid ` set rs \<Longrightarrow> \<exists>r. map_of (rev (map (\<lambda>r. (rid r, r)) rs)) i = Some r"
  by (cases "map_of (rev (map (\<lambda>r. (rid r, r)) rs)) i")
    (auto simp: map_of_eq_None_iff image_iff)

lemma set_pick: "set (pick bs xs) \<subseteq> set xs"
  by (auto simp: pick_def dest: set_zip_rightD)

lemma definitions_total:
  assumes "set ids \<subseteq> rid ` set rs"
  shows "\<exists>ds. those (map (\<lambda>rxn_id. map_option (\<lambda>r. build_reaction_string r names)
                 (map_of (rev (map (\<lambda>r. (rid r, r)) rs)) rxn_id)) ids) = Some ds"
proof (rule those_map_total)
  fix x assume "x \<in> set ids"
  with assms have "x \<in> rid ` set rs" by blast
  from reactions_lookup [OF this]
  show "map_option (\<lambda>r. build_reaction_string r names)
          (map_of (rev (map (\<lambda>r. (rid r, r)) rs)) x) \<noteq> None"
    by auto
qed

lemma display_flux_total:
  assumes f: "deref st r = Some (table_rows tol fv xs)"
    and ids: "set (map fst xs) \<subseteq> rid ` set (self_reactions (summary st))"
  shows "\<exists>r' st'. display_flux st r names t = Some (r', st')"
proof -
  obtain bs where bs: "shown (table_rows tol fv xs) t = Some bs"
    by (cases fv)
      (simp_all add: shown_def has_bounds_def columns_def table_rows_def bound_cols_def floats_def)
  let ?k = "loc_rows (table_rows tol fv xs) bs"
  have s: "strs ?k ''reaction'' = Some (pick bs (map fst xs))"
    by (cases fv) (simp_all add: strs_def loc_rows_def table_rows_def bound_cols_def)
  have "set (pick bs (map fst xs)) \<subseteq> rid ` set (self_reactions (summary st))"
    using set_pick [of bs "map fst xs"] ids by blast
  from definitions_total [OF this, of names] obtain ds where
    ds: "those (map (\<lambda>rxn_id. map_option (\<lambda>r. build_reaction_string r names)
           (map_of (rev (map (\<lambda>r. (rid r, r)) (self_reactions (summary st)))) rxn_id))
           (pick bs (map fst xs))) = Some ds"
    by blast
  show ?thesis
    unfolding display_flux_def f bind.bind_lunit bs
    apply (simp add: new_def deref_def Let_def s ds assign_def)
    apply (cases fv)
     apply (simp_all add: has_bounds_def columns_def setcol_def loc_rows_def table_rows_def
        bound_cols_def floats_def select_def)
    done
qed

lemma deref_assign_object:
  "deref st (Object n) = Some f \<Longrightarrow> deref (assign st (Object n) g) (Object n) = Some g"
  by (simp add: deref_def assign_def split: if_splits)

lemma string_table_total:
  assumes "deref st (Object n) = Some f"
  shows "\<exists>out st'. string_table ext st (Object n) float_format column_width = Some (out, st')"
  by (simp add: string_table_def assms Let_def deref_assign_object [OF assms])

lemma html_table_total:
  assumes "deref st (Object n) = Some f"
  shows "\<exists>out st'. html_table ext st (Object n) float_format = Some (out, st')"
  by (simp add: html_table_def assms Let_def deref_assign_object [OF assms])

lemma display_flux_result:
  assumes "display_flux st r names t = Some (r', st')"
  shows "\<exists>n out. r' = Object n \<and> deref st' r' = Some out \<and> summary st' = summary st"
proof -
  from display_flux_Some [OF assms] obtain g out where
    "r' = Object (Suc (length (objects st)))" "st' = st\<lparr>objects := objects st @ [g, out]\<rparr>"
    by blast
  then show ?thesis by (simp add: deref_def nth_append)
qed

lemma generated_tables:
  assumes "generate ext self model solution fva = Some s"
  shows "\<exists>fv xs ys.
      producing_fluxes s = Some (table_rows (tolerance model) fv xs) \<and>
      consuming_fluxes s = Some (table_rows (tolerance model) fv ys) \<and>
      set (map fst xs) \<subseteq> rid ` set (self_reactions s) \<and>
      set (map fst ys) \<subseteq> rid ` set (self_reactions s)"
proof -
  let ?tol = "tolerance model"
  from assms obtain sol fv ds where ds: "flux_data self sol = Some ds"
    and s: "s = self\<lparr>producing_fluxes :=
                    Some (table_rows ?tol fv (filter (row_produced ?tol fv) ds)),
                 consuming_fluxes :=
                    Some (table_rows ?tol fv (filter (row_consumed ?tol fv) ds)),
                 self_flux := Some (flux_rows ?tol fv ds)\<rparr>"
    unfolding generate_rows by blast
  have ids: "map fst ds = map rid (self_reactions self)" by (rule flux_data_Some(2) [OF ds])
  have sub: "set (map fst (filter P ds)) \<subseteq> rid ` set (self_reactions self)" for P
  proof -
    have "set (map fst (filter P ds)) \<subseteq> set (map fst ds)" by auto
    then show ?thesis unfolding ids by simp
  qed
  show ?thesis
    apply (rule exI [of _ fv])
    apply (rule exI [of _ "filter (row_produced ?tol fv) ds"])
    apply (rule exI [of _ "filter (row_consumed ?tol fv) ds"])
    using sub by (simp add: s)
qed

section \<open>The claims\<close>

text \<open>
  In the theorems below \<open>generate ext self model solution fva = Some s\<close> says that
  construction returned the summary \<open>s\<close>; the tables are \<open>producing_fluxes s\<close> and
  \<open>consuming_fluxes s\<close>, and \<open>self_flux s\<close> is the full flux table the two are cut from.
  A row is a position of the index. A flux of the solution is any cell value, NaN and
  the infinities included; the coefficients, the bounds and the tolerance are finite
  numbers.
\<close>

text \<open>
  Claim C1, as the code has it. The producing and the consuming table are the rows of
  the flux table at the masks of lines 137 and 149. No row is in both tables. A row
  whose factor is not zero and whose stored flux is not NaN is in exactly one of them,
  and a row with zero scaled flux is in the producing table exactly when its factor is
  positive and in the consuming table exactly when its factor is negative. A row with
  a zero factor has a stored flux that is zero or NaN and is in neither table, and so
  is every row whose stored flux is NaN; with variability data no stored flux is NaN.
  When no factor is zero and no stored flux is NaN, the labels of the two tables
  together are the labels of all rows, their row counts add up to the number of
  reactions, and with distinct reaction identifiers no label is in both.
\<close>

theorem tables_split_rows:
  assumes "generate ext self model solution fva = Some s"
  shows "\<exists>flux p c fl fa bp bc.
      self_flux s = Some flux \<and> producing_fluxes s = Some p \<and> consuming_fluxes s = Some c \<and>
      index flux = map rid (self_reactions self) \<and>
      floats flux ''flux'' = Some fl \<and> floats flux ''factor'' = Some fa \<and>
      is_produced flux = Some bp \<and> is_consumed flux = Some bc \<and>
      length fl = length (index flux) \<and> length fa = length (index flux) \<and>
      length bp = length (index flux) \<and> length bc = length (index flux) \<and>
      index p = pick bp (index flux) \<and> index c = pick bc (index flux) \<and>
      floats p ''flux'' = Some (pick bp fl) \<and> floats c ''flux'' = Some (pick bc fl) \<and>
      (\<forall>i<length (index flux). \<not> (bp ! i \<and> bc ! i)) \<and>
      (\<forall>i<length (index flux). \<not> np_eq (fa ! i) (Fin 0) \<and> \<not> isnan (fl ! i) \<longrightarrow>
         bp ! i \<noteq> bc ! i) \<and>
      (\<forall>i<length (index flux). np_eq (fl ! i) (Fin 0) \<longrightarrow>
         bp ! i = np_gt (fa ! i) (Fin 0) \<and> bc ! i = np_lt (fa ! i) (Fin 0)) \<and>
      (\<forall>i<length (index flux). np_eq (fa ! i) (Fin 0) \<longrightarrow>
         (fl ! i = Fin 0 \<or> isnan (fl ! i)) \<and> \<not> bp ! i \<and> \<not> bc ! i) \<and>
      (\<forall>i<length (index flux). isnan (fl ! i) \<longrightarrow> \<not> bp ! i \<and> \<not> bc ! i) \<and>
      (fva \<noteq> None \<longrightarrow> (\<forall>i<length (index flux). \<not> isnan (fl ! i))) \<and>
      ((\<forall>i<length (index flux). \<not> np_eq (fa ! i) (Fin 0) \<and> \<not> isnan (fl ! i)) \<longrightarrow>
         set (index p) \<union> set (index c) = set (index flux) \<and>
         length (index p) + length (index c) = length (index flux) \<and>
         (distinct (index flux) \<longrightarrow> set (index p) \<inter> set (index c) = {}))"
proof -
  let ?tol = "tolerance model"
  from assms obtain sol fv ds where ds: "flux_data self sol = Some ds"
    and fv: "fva_or_analysis ext self model fva = Some fv"
    and s: "s = self\<lparr>producing_fluxes :=
                    Some (table_rows ?tol fv (filter (row_produced ?tol fv) ds)),
                 consuming_fluxes :=
                    Some (table_rows ?tol fv (filter (row_consumed ?tol fv) ds)),
                 self_flux := Some (flux_rows ?tol fv ds)\<rparr>"
    unfolding generate_rows by blast
  let ?flux = "flux_rows ?tol fv ds"
  let ?F = "stored_flux ?tol fv"
  let ?P = "row_produced ?tol fv" and ?Q = "row_consumed ?tol fv"
  have both: "\<not> (?P d \<and> ?Q d)" for d by (rule row_not_both)
  have one: "snd (snd d) \<noteq> 0 \<and> \<not> isnan (?F d) \<longrightarrow> ?P d \<noteq> ?Q d" for d
    using row_in_one [of d ?tol fv] by blast
  have tie: "np_eq (?F d) (Fin 0) \<longrightarrow> ?P d = (0 < snd (snd d)) \<and> ?Q d = (snd (snd d) < 0)" for d
    using sign_of_cell(2) [of "?F d"] by (auto simp: row_produced_def row_consumed_def)
  have zero: "snd (snd d) = 0 \<longrightarrow> (?F d = Fin 0 \<or> isnan (?F d)) \<and> \<not> ?P d \<and> \<not> ?Q d" for d
    using stored_zero_factor [of d ?tol fv] row_zero_factor_neither [of d ?tol fv] by blast
  have nan: "isnan (?F d) \<longrightarrow> \<not> ?P d \<and> \<not> ?Q d" for d
    using row_nan_neither [of ?tol fv d] by blast
  have given: "fva \<noteq> None \<longrightarrow> \<not> isnan (?F d)" for d
    using bounds_given [OF fv] stored_flux_with_bounds_not_nan [of ?tol _ d] by (cases fv) auto
  have all: "set (map fst (filter ?P ds)) \<union> set (map fst (filter ?Q ds)) = set (map fst ds) \<and>
         length (filter ?P ds) + length (filter ?Q ds) = length ds \<and>
         (distinct (map fst ds) \<longrightarrow> set (map fst (filter ?P ds)) \<inter> set (map fst (filter ?Q ds)) = {})"
    if nz: "\<forall>i<length ds. snd (snd (ds ! i)) \<noteq> 0 \<and> \<not> isnan (?F (ds ! i))"
  proof -
    have compl: "?Q d = (\<not> ?P d)" if "d \<in> set ds" for d
    proof -
      from that obtain i where "i < length ds" "d = ds ! i" by (auto simp: in_set_conv_nth)
      with nz have "snd (snd d) \<noteq> 0" "\<not> isnan (?F d)" by auto
      with row_in_one [of d ?tol fv] show ?thesis by auto
    qed
    then have Q: "filter ?Q ds = filter (\<lambda>d. \<not> ?P d) ds"
      by (auto intro: filter_cong)
    have "set (filter ?P ds) \<union> set (filter (\<lambda>d. \<not> ?P d) ds) = set ds" by auto
    then have u: "set (map fst (filter ?P ds)) \<union> set (map fst (filter ?Q ds)) = set (map fst ds)"
      unfolding Q set_map image_Un [symmetric] by simp
    have l: "length (filter ?P ds) + length (filter ?Q ds) = length ds"
      unfolding Q by (rule sum_length_filter_compl)
    have d: "set (map fst (filter ?P ds)) \<inter> set (map fst (filter ?Q ds)) = {}"
      if dist: "distinct (map fst ds)"
    proof -
      have inj: "inj_on fst (set ds)" using dist by (simp add: distinct_map)
      have False if x: "x \<in> fst ` set (filter ?P ds)" "x \<in> fst ` set (filter ?Q ds)" for x
      proof -
        from x(1) obtain d where d: "d \<in> set ds" "?P d" "x = fst d" by auto
        from x(2) obtain e where e: "e \<in> set ds" "?Q e" "x = fst e" by auto
        from inj d e have "d = e" by (auto dest: inj_onD)
        with d e both show False by blast
      qed
      then show ?thesis by auto
    qed
    from u l d show ?thesis by blast
  qed
  show ?thesis
    apply (rule exI [of _ ?flux])
    apply (rule exI [of _ "table_rows ?tol fv (filter ?P ds)"])
    apply (rule exI [of _ "table_rows ?tol fv (filter ?Q ds)"])
    apply (rule exI [of _ "map ?F ds"])
    apply (rule exI [of _ "map (\<lambda>d. Fin (snd (snd d))) ds"])
    apply (rule exI [of _ "map ?P ds"])
    apply (rule exI [of _ "map ?Q ds"])
    apply (intro conjI)
    subgoal by (simp add: s)
    subgoal by (simp add: s)
    subgoal by (simp add: s)
    subgoal using flux_data_Some(2) [OF ds] by (simp add: index_flux_rows)
    subgoal by (rule floats_flux_rows)
    subgoal by (rule floats_flux_rows)
    subgoal by (rule is_produced_rows)
    subgoal by (rule is_consumed_rows)
    subgoal by (simp add: index_flux_rows)
    subgoal by (simp add: index_flux_rows)
    subgoal by (simp add: index_flux_rows)
    subgoal by (simp add: index_flux_rows)
    subgoal by (simp add: index_flux_rows index_table_rows)
    subgoal by (simp add: index_flux_rows index_table_rows)
    subgoal by (simp add: floats_table_rows)
    subgoal by (simp add: floats_table_rows)
    subgoal using both by (simp add: index_flux_rows)
    subgoal using one by (simp add: index_flux_rows)
    subgoal using tie by (simp add: index_flux_rows)
    subgoal using zero by (simp add: index_flux_rows)
    subgoal using nan by (simp add: index_flux_rows)
    subgoal using given by (simp add: index_flux_rows)
    subgoal using all by (simp add: index_flux_rows index_table_rows)
    done
qed

theorem tables_split_rows_witness:
  "generate ex_ext (ex_self ex_reactions) ex_model (Some ex_solution) (Some (Bounds ex_bounds))
     = Some ex_summary \<and>
   set (index ex_producing) \<union> set (index ex_consuming) = set (index ex_flux) \<and>
   length (index ex_producing) + length (index ex_consuming) = length (index ex_flux) \<and>
   set (index ex_producing) \<inter> set (index ex_consuming) = {}"
proof -
  from tables_split_rows [OF ex_generate]
  obtain flux p c fl fa bp bc where f: "self_flux ex_summary = Some flux"
      "producing_fluxes ex_summary = Some p" "consuming_fluxes ex_summary = Some c"
      "floats flux ''flux'' = Some fl" "floats flux ''factor'' = Some fa"
    and imp: "(\<forall>i<length (index flux). \<not> np_eq (fa ! i) (Fin 0) \<and> \<not> isnan (fl ! i)) \<longrightarrow>
         set (index p) \<union> set (index c) = set (index flux) \<and>
         length (index p) + length (index c) = length (index flux) \<and>
         (distinct (index flux) \<longrightarrow> set (index p) \<inter> set (index c) = {})"
    by (elim exE conjE) (rule that; assumption)
  from f have eq: "flux = ex_flux" "p = ex_producing" "c = ex_consuming"
    by (simp_all add: ex_summary_def ex_self_def)
  from f(5) have fa: "fa = [Fin 1, Fin (- 2), Fin 1, Fin (- 1), Fin 4, Fin (1 / 2), Fin (- 1)]"
    by (simp add: eq ex_flux_def floats_def)
  from f(4) have fl: "fl = [Fin 5, Fin (- 6), Fin 0, Fin 0, Fin 4, Fin (1 / 2), Fin 0]"
    by (simp add: eq ex_flux_def floats_def)
  have nz: "\<forall>x\<in>set fa. \<not> np_eq x (Fin 0)" by (simp add: fa)
  have nn: "\<forall>x\<in>set fl. \<not> isnan x" by (simp add: fl)
  have len: "length fa = length (index flux)" "length fl = length (index flux)"
    by (simp_all add: fa fl eq ex_flux_def)
  have "\<not> np_eq (fa ! i) (Fin 0) \<and> \<not> isnan (fl ! i)" if "i < length (index flux)" for i
  proof -
    from that len have "fa ! i \<in> set fa" "fl ! i \<in> set fl" by simp_all
    with nz nn show ?thesis by blast
  qed
  then have "\<forall>i<length (index flux). \<not> np_eq (fa ! i) (Fin 0) \<and> \<not> isnan (fl ! i)"
    by blast
  moreover have "distinct (index ex_flux)" by (simp add: ex_flux_def)
  ultimately show ?thesis using imp ex_generate by (simp add: eq)
qed

text \<open>
  Claim C1 as stated fails for a reaction whose coefficient for the metabolite is
  zero: reaction \<open>Z\<close> is a row of the flux table and of neither the producing nor
  the consuming table.
\<close>

theorem zero_factor_row_in_neither_table:
  "generate ex_ext (ex_self ex_idle) ex_model (Some ex_solution) None = Some ex_idle_summary \<and>
   map_option index (self_flux ex_idle_summary) = Some [''C'', ''Z''] \<and>
   map_option index (producing_fluxes ex_idle_summary) = Some [''C''] \<and>
   map_option index (consuming_fluxes ex_idle_summary) = Some []"
  by (simp add: ex_idle_generate) (simp add: ex_idle_summary_def ex_self_def)

text \<open>
  The same happens to a reaction whose flux in the solution is NaN when no variability
  data is given: the stored flux of reaction \<open>N\<close> is NaN, every comparison of lines
  137 and 149 with it is false, and \<open>N\<close> is a row of neither table.
\<close>

lemma nan_flux_row_in_neither_table:
  "generate ex_ext (ex_self ex_stray) ex_model (Some ex_solution) None = Some ex_stray_summary \<and>
   map_option index (self_flux ex_stray_summary) = Some [''C'', ''N'', ''Z''] \<and>
   map_option (\<lambda>t. floats t ''flux'') (self_flux ex_stray_summary)
     = Some (Some [Fin 0, NaN, Fin 0]) \<and>
   map_option index (producing_fluxes ex_stray_summary) = Some [''C''] \<and>
   map_option index (consuming_fluxes ex_stray_summary) = Some []"
  by (simp add: ex_stray_generate) (simp add: ex_stray_summary_def ex_self_def floats_def)




text \<open>
  Claim C3, on the code. \<open>to_string\<close> passes the threshold through
  \<open>normalize_cutoff\<close> before it filters (lemma \<open>to_string_widens\<close>); \<open>to_html\<close>
  filters with the threshold as the caller gave it. For the metabolite whose only
  producing reaction \<open>C\<close> carries no flux and a model tolerance of \<open>1 / 1000\<close>,
  \<open>to_html\<close> with threshold \<open>0\<close> renders the row of \<open>C\<close>, and with the threshold
  equal to the tolerance it renders no row.
\<close>

theorem to_html_threshold_not_widened:
  "map_option fst (to_html ex_ext ex_idle_state False 0 ''.4G'') =
     Some ''<h3>glc</h3><p>C6H12O6</p><h4>Producing Reactions</h4>C<h4>Consuming Reactions</h4>'' \<and>
   map_option fst (to_html ex_ext ex_idle_state False (tolerance ex_model) ''.4G'') =
     Some ''<h3>glc</h3><p>C6H12O6</p><h4>Producing Reactions</h4><h4>Consuming Reactions</h4>'' \<and>
   0 < tolerance ex_model"
  by (simp add: render_defs ex_state_defs ex_defs frame_defs np_defs Let_def
      cong: bind_weak_cong)

text \<open>
  Claim C4, as the code has it. The two tables have the columns flux, reaction and
  percent, with minimum and maximum after flux when variability bounds were given.
  Neither table has a factor column or a range column: the factor stays in the full
  flux table, and the range is attached when the table is rendered. The row labels of
  a table are the reaction identifiers of its rows, they equal its reaction column,
  and they are distinct when the identifiers are; every column has one cell per row.
\<close>

theorem table_columns:
  assumes gen: "generate ext self model solution fva = Some s"
  shows "\<exists>fv flux p q.
      fva_or_analysis ext self model fva = Some fv \<and>
      self_flux s = Some flux \<and> producing_fluxes s = Some p \<and> consuming_fluxes s = Some q \<and>
      columns flux =
        [''reaction'', ''flux'', ''factor''] @ (if fv = None then [] else [''minimum'', ''maximum'']) \<and>
      (\<forall>tab\<in>{p, q}.
         columns tab =
           ''flux'' # (if fv = None then [] else [''minimum'', ''maximum'']) @ [''reaction'', ''percent''] \<and>
         ''factor'' \<notin> set (columns tab) \<and> ''range'' \<notin> set (columns tab) \<and>
         strs tab ''reaction'' = Some (index tab) \<and>
         set (index tab) \<subseteq> rid ` set (self_reactions self) \<and>
         (distinct (map rid (self_reactions self)) \<longrightarrow> distinct (index tab)) \<and>
         (\<exists>fl pc. floats tab ''flux'' = Some fl \<and> floats tab ''percent'' = Some pc \<and>
            length fl = length (index tab) \<and> length pc = length (index tab)) \<and>
         (fv \<noteq> None \<longrightarrow>
            (\<exists>mn mx. floats tab ''minimum'' = Some mn \<and> floats tab ''maximum'' = Some mx \<and>
               length mn = length (index tab) \<and> length mx = length (index tab))))"
proof -
  let ?tol = "tolerance model"
  from gen obtain sol fv ds where fv: "fva_or_analysis ext self model fva = Some fv"
    and ds: "flux_data self sol = Some ds"
    and s: "s = self\<lparr>producing_fluxes :=
                    Some (table_rows ?tol fv (filter (row_produced ?tol fv) ds)),
                 consuming_fluxes :=
                    Some (table_rows ?tol fv (filter (row_consumed ?tol fv) ds)),
                 self_flux := Some (flux_rows ?tol fv ds)\<rparr>"
    unfolding generate_rows by auto
  have ids: "map fst ds = map rid (self_reactions self)" by (rule flux_data_Some(2) [OF ds])
  have tab: "columns (table_rows ?tol fv (filter P ds)) =
           ''flux'' # (if fv = None then [] else [''minimum'', ''maximum'']) @ [''reaction'', ''percent''] \<and>
         ''factor'' \<notin> set (columns (table_rows ?tol fv (filter P ds))) \<and>
         ''range'' \<notin> set (columns (table_rows ?tol fv (filter P ds))) \<and>
         strs (table_rows ?tol fv (filter P ds)) ''reaction'' = Some (index (table_rows ?tol fv (filter P ds))) \<and>
         set (index (table_rows ?tol fv (filter P ds))) \<subseteq> rid ` set (self_reactions self) \<and>
         (distinct (map rid (self_reactions self)) \<longrightarrow> distinct (index (table_rows ?tol fv (filter P ds)))) \<and>
         (\<exists>fl pc. floats (table_rows ?tol fv (filter P ds)) ''flux'' = Some fl \<and>
            floats (table_rows ?tol fv (filter P ds)) ''percent'' = Some pc \<and>
            length fl = length (index (table_rows ?tol fv (filter P ds))) \<and>
            length pc = length (index (table_rows ?tol fv (filter P ds)))) \<and>
         (fv \<noteq> None \<longrightarrow>
            (\<exists>mn mx. floats (table_rows ?tol fv (filter P ds)) ''minimum'' = Some mn \<and>
               floats (table_rows ?tol fv (filter P ds)) ''maximum'' = Some mx \<and>
               length mn = length (index (table_rows ?tol fv (filter P ds))) \<and>
               length mx = length (index (table_rows ?tol fv (filter P ds)))))" for P
  proof -
    have sub: "set (map fst (filter P ds)) \<subseteq> rid ` set (self_reactions self)"
    proof -
      have "set (map fst (filter P ds)) \<subseteq> set (map fst ds)" by auto
      then show ?thesis unfolding ids by simp
    qed
    have dist: "distinct (map fst (filter P ds))" if "distinct (map rid (self_reactions self))"
      using that unfolding ids [symmetric] by (rule distinct_map_filter)
    show ?thesis
      using sub dist
      by (cases fv) (auto simp: columns_table_rows strs_table_rows index_table_rows
          floats_table_rows floats_table_rows_bounds)
  qed
  show ?thesis
    apply (rule exI [of _ fv])
    apply (rule exI [of _ "flux_rows ?tol fv ds"])
    apply (rule exI [of _ "table_rows ?tol fv (filter (row_produced ?tol fv) ds)"])
    apply (rule exI [of _ "table_rows ?tol fv (filter (row_consumed ?tol fv) ds)"])
    using tab [of "row_produced ?tol fv"] tab [of "row_consumed ?tol fv"]
    by (simp add: fv s columns_flux_rows)
qed

theorem table_columns_witness:
  "generate ex_ext (ex_self ex_reactions) ex_model (Some ex_solution) (Some (Bounds ex_bounds))
     = Some ex_summary \<and>
   columns ex_producing = [''flux'', ''minimum'', ''maximum'', ''reaction'', ''percent''] \<and>
   columns ex_consuming = [''flux'', ''minimum'', ''maximum'', ''reaction'', ''percent''] \<and>
   ''factor'' \<notin> set (columns ex_producing) \<and> ''factor'' \<notin> set (columns ex_consuming) \<and>
   distinct (index ex_producing) \<and> distinct (index ex_consuming)"
proof -
  from table_columns [OF ex_generate]
  obtain fv flux p q where fv: "fva_or_analysis ex_ext (ex_self ex_reactions) ex_model
        (Some (Bounds ex_bounds)) = Some fv"
    and f: "producing_fluxes ex_summary = Some p" "consuming_fluxes ex_summary = Some q"
    and tabs: "\<forall>tab\<in>{p, q}.
         columns tab =
           ''flux'' # (if fv = None then [] else [''minimum'', ''maximum'']) @ [''reaction'', ''percent''] \<and>
         ''factor'' \<notin> set (columns tab) \<and>
         (distinct (map rid (self_reactions (ex_self ex_reactions))) \<longrightarrow> distinct (index tab))"
    by blast
  from fv have fv': "fv = Some ex_bounds" by (simp add: ex_bounds_given)
  from f have eq: "p = ex_producing" "q = ex_consuming"
    by (simp_all add: ex_summary_def ex_self_def)
  have "distinct (map rid (self_reactions (ex_self ex_reactions)))"
    by (simp add: ex_self_def ex_reactions_def ex_reaction_def)
  with tabs ex_generate show ?thesis by (simp add: eq fv')
qed

text \<open>
  Claim C4 as stated fails without variability data: the tables have the columns
  flux, reaction and percent, and reading the factor column of either raises
  \<^verbatim>\<open>KeyError\<close>.
\<close>

theorem table_without_factor_column:
  "generate ex_ext (ex_self ex_idle) ex_model (Some ex_solution) None = Some ex_idle_summary \<and>
   map_option columns (producing_fluxes ex_idle_summary) = Some [''flux'', ''reaction'', ''percent''] \<and>
   map_option columns (consuming_fluxes ex_idle_summary) = Some [''flux'', ''reaction'', ''percent''] \<and>
   map_option (\<lambda>tab. floats tab ''factor'') (producing_fluxes ex_idle_summary) = Some None \<and>
   map_option (\<lambda>tab. floats tab ''factor'') (consuming_fluxes ex_idle_summary) = Some None"
  by (simp add: ex_idle_generate) (simp add: ex_idle_summary_def ex_self_def columns_def floats_def)

text \<open>
  Claim C5. For the row of a reaction with flux \<open>v\<close> and coefficient \<open>c\<close>: when the
  absolute value of the scaled flux \<open>v * c\<close> is below the tolerance, the stored flux
  is zero and the row is classified by the sign of its factor alone: it is a row of
  the producing table when \<open>c\<close> is positive and of the consuming table when \<open>c\<close> is
  negative, so the zeroing comes before the classification. The two tables are the
  rows of the flux table at these masks, with the stored flux and the stored bounds
  of the flux table. When bounds \<open>(lo, hi)\<close> are given for the row, a bound below the
  tolerance in absolute value is stored as zero, in the column the swap of a negative
  factor puts it in, so the zeroing comes before the swap. No numeric cell of the
  flux table or of the two tables is a negative zero.
\<close>

theorem below_tolerance_stored_as_zero:
  assumes gen: "generate ext self model solution fva = Some s"
    and sol: "solution_or_pfba ext model solution = Some sol"
    and fv: "fva_or_analysis ext self model fva = Some fv"
    and i: "i < length (self_reactions self)"
    and v: "sol (rid (self_reactions self ! i)) = Some v"
    and c: "get_coefficient (self_reactions self ! i) (met_id (self_metabolite self)) = Some c"
  shows "\<exists>flux p q fl bp bc.
      self_flux s = Some flux \<and> producing_fluxes s = Some p \<and> consuming_fluxes s = Some q \<and>
      index flux = map rid (self_reactions self) \<and>
      floats flux ''flux'' = Some fl \<and> length fl = length (self_reactions self) \<and>
      is_produced flux = Some bp \<and> length bp = length (self_reactions self) \<and>
      is_consumed flux = Some bc \<and> length bc = length (self_reactions self) \<and>
      index p = pick bp (index flux) \<and> index q = pick bc (index flux) \<and>
      floats p ''flux'' = Some (pick bp fl) \<and> floats q ''flux'' = Some (pick bc fl) \<and>
      (np_lt (np_abs (np_mul v (Fin c))) (Fin (tolerance model)) \<longrightarrow>
         fl ! i = Fin 0 \<and> bp ! i = (0 < c) \<and> bc ! i = (c < 0) \<and>
         (0 < c \<longrightarrow> rid (self_reactions self ! i) \<in> set (index p)) \<and>
         (c < 0 \<longrightarrow> rid (self_reactions self ! i) \<in> set (index q)) \<and>
         (distinct (map rid (self_reactions self)) \<longrightarrow>
            (rid (self_reactions self ! i) \<in> set (index p)) = (0 < c) \<and>
            (rid (self_reactions self ! i) \<in> set (index q)) = (c < 0))) \<and>
      (\<forall>b lo hi. fv = Some b \<and> b (rid (self_reactions self ! i)) = Some (lo, hi) \<longrightarrow>
         (\<exists>mn mx. floats flux ''minimum'' = Some mn \<and> floats flux ''maximum'' = Some mx \<and>
            length mn = length (self_reactions self) \<and>
            length mx = length (self_reactions self) \<and>
            floats p ''minimum'' = Some (pick bp mn) \<and> floats p ''maximum'' = Some (pick bp mx) \<and>
            floats q ''minimum'' = Some (pick bc mn) \<and> floats q ''maximum'' = Some (pick bc mx) \<and>
            (\<bar>lo\<bar> < tolerance model \<longrightarrow> (if c < 0 then mx ! i else mn ! i) = Fin 0) \<and>
            (\<bar>hi\<bar> < tolerance model \<longrightarrow> (if c < 0 then mn ! i else mx ! i) = Fin 0))) \<and>
      (\<forall>tab\<in>{flux, p, q}. \<forall>name xs. floats tab name = Some xs \<longrightarrow> NegZero \<notin> set xs)"
proof -
  let ?tol = "tolerance model"
  let ?rs = "self_reactions self"
  let ?P = "row_produced ?tol fv" and ?Q = "row_consumed ?tol fv"
  from gen sol fv obtain ds where ds: "flux_data self sol = Some ds"
    and s: "s = self\<lparr>producing_fluxes := Some (table_rows ?tol fv (filter ?P ds)),
                 consuming_fluxes := Some (table_rows ?tol fv (filter ?Q ds)),
                 self_flux := Some (flux_rows ?tol fv ds)\<rparr>"
    unfolding generate_rows by auto
  have len: "length ds = length ?rs" by (rule flux_data_Some(1) [OF ds])
  have ids: "map fst ds = map rid ?rs" by (rule flux_data_Some(2) [OF ds])
  have row: "ds ! i = (rid (?rs ! i), v, c)" by (rule flux_data_row [OF ds i v c])
  have i': "i < length ds" using i len by simp
  have mem: "ds ! i \<in> set ds" using i' by simp
  have sc: "scaled (ds ! i) = np_mul v (Fin c)" by (simp add: scaled_def row)
  have below: "stored_flux ?tol fv (ds ! i) = Fin 0 \<and>
      ?P (ds ! i) = (0 < c) \<and> ?Q (ds ! i) = (c < 0) \<and>
      (0 < c \<longrightarrow> rid (?rs ! i) \<in> fst ` set (filter ?P ds)) \<and>
      (c < 0 \<longrightarrow> rid (?rs ! i) \<in> fst ` set (filter ?Q ds)) \<and>
      (distinct (map rid ?rs) \<longrightarrow>
            (rid (?rs ! i) \<in> fst ` set (filter ?P ds)) = (0 < c) \<and>
            (rid (?rs ! i) \<in> fst ` set (filter ?Q ds)) = (c < 0))"
    if lt: "np_lt (np_abs (np_mul v (Fin c))) (Fin ?tol)"
  proof -
    from lt have z: "stored_flux ?tol fv (ds ! i) = Fin 0"
      using stored_flux_below [of "ds ! i" ?tol fv] by (simp add: sc)
    then have c1: "?P (ds ! i) = (0 < c)" "?Q (ds ! i) = (c < 0)"
      by (simp_all add: row_produced_def row_consumed_def row)
    have fst_i: "fst (ds ! i) = rid (?rs ! i)" by (simp add: row)
    have inR: "rid (?rs ! i) \<in> fst ` set (filter R ds)" if "R (ds ! i)" for R
    proof -
      from that mem have "ds ! i \<in> set (filter R ds)" by simp
      then have "fst (ds ! i) \<in> fst ` set (filter R ds)" by (rule imageI)
      then show ?thesis by (simp only: fst_i)
    qed
    have p1: "0 < c \<longrightarrow> rid (?rs ! i) \<in> fst ` set (filter ?P ds)"
      using c1(1) inR [of ?P] by simp
    have q1: "c < 0 \<longrightarrow> rid (?rs ! i) \<in> fst ` set (filter ?Q ds)"
      using c1(2) inR [of ?Q] by simp
    have o1: "(rid (?rs ! i) \<in> fst ` set (filter R ds)) = R (ds ! i)"
      if dist: "distinct (map rid ?rs)" for R
    proof -
      have inj: "inj_on fst (set ds)" using dist ids by (metis distinct_map)
      show ?thesis
      proof
        assume "rid (?rs ! i) \<in> fst ` set (filter R ds)"
        then obtain d where d: "d \<in> set ds" "R d" "fst d = rid (?rs ! i)" by auto
        from d(3) fst_i have "fst d = fst (ds ! i)" by simp
        from inj_onD [OF inj this d(1) mem] have "d = ds ! i" .
        with d(2) show "R (ds ! i)" by simp
      next
        assume "R (ds ! i)"
        then show "rid (?rs ! i) \<in> fst ` set (filter R ds)" by (rule inR)
      qed
    qed
    from o1 [of ?P] o1 [of ?Q] c1
    have "distinct (map rid ?rs) \<longrightarrow>
            (rid (?rs ! i) \<in> fst ` set (filter ?P ds)) = (0 < c) \<and>
            (rid (?rs ! i) \<in> fst ` set (filter ?Q ds)) = (c < 0)"
      by simp
    with z c1 p1 q1 show ?thesis by blast
  qed
  have bounds: "\<exists>mn mx. floats (flux_rows ?tol fv ds) ''minimum'' = Some mn \<and>
            floats (flux_rows ?tol fv ds) ''maximum'' = Some mx \<and>
            length mn = length ?rs \<and> length mx = length ?rs \<and>
            floats (table_rows ?tol fv (filter ?P ds)) ''minimum'' = Some (pick (map ?P ds) mn) \<and>
            floats (table_rows ?tol fv (filter ?P ds)) ''maximum'' = Some (pick (map ?P ds) mx) \<and>
            floats (table_rows ?tol fv (filter ?Q ds)) ''minimum'' = Some (pick (map ?Q ds) mn) \<and>
            floats (table_rows ?tol fv (filter ?Q ds)) ''maximum'' = Some (pick (map ?Q ds) mx) \<and>
            (\<bar>lo\<bar> < ?tol \<longrightarrow> (if c < 0 then mx ! i else mn ! i) = Fin 0) \<and>
            (\<bar>hi\<bar> < ?tol \<longrightarrow> (if c < 0 then mn ! i else mx ! i) = Fin 0)"
    if "fv = Some b" "b (rid (?rs ! i)) = Some (lo, hi)" for b lo hi
    apply (rule exI [of _ "map (\<lambda>d. Fin (stored_minimum ?tol b d)) ds"])
    apply (rule exI [of _ "map (\<lambda>d. Fin (stored_maximum ?tol b d)) ds"])
    using that i' len
    by (simp add: floats_flux_rows_bounds floats_table_rows_bounds stored_minimum_def
        stored_maximum_def row snap_def)
  have clean: "\<forall>tab\<in>{flux_rows ?tol fv ds,
                   table_rows ?tol fv (filter ?P ds),
                   table_rows ?tol fv (filter ?Q ds)}.
      \<forall>name xs. floats tab name = Some xs \<longrightarrow> NegZero \<notin> set xs"
    using flux_rows_no_negzero table_rows_no_negzero by blast
  show ?thesis
    apply (rule exI [of _ "flux_rows ?tol fv ds"])
    apply (rule exI [of _ "table_rows ?tol fv (filter ?P ds)"])
    apply (rule exI [of _ "table_rows ?tol fv (filter ?Q ds)"])
    apply (rule exI [of _ "map (stored_flux ?tol fv) ds"])
    apply (rule exI [of _ "map ?P ds"])
    apply (rule exI [of _ "map ?Q ds"])
    apply (intro conjI)
    subgoal by (simp add: s)
    subgoal by (simp add: s)
    subgoal by (simp add: s)
    subgoal by (simp add: index_flux_rows ids)
    subgoal by (rule floats_flux_rows)
    subgoal by (simp add: len)
    subgoal by (rule is_produced_rows)
    subgoal by (simp add: len)
    subgoal by (rule is_consumed_rows)
    subgoal by (simp add: len)
    subgoal by (simp add: index_flux_rows index_table_rows)
    subgoal by (simp add: index_flux_rows index_table_rows)
    subgoal by (simp add: floats_table_rows)
    subgoal by (simp add: floats_table_rows)
    subgoal using below i' by (simp add: index_table_rows)
    subgoal using bounds by blast
    subgoal by (rule clean)
    done
qed

theorem below_tolerance_stored_as_zero_witness:
  "generate ex_ext (ex_self ex_reactions) ex_model (Some ex_solution) (Some (Bounds ex_bounds))
     = Some ex_summary \<and>
   (3::nat) < length (self_reactions (ex_self ex_reactions)) \<and>
   ex_solution (rid (self_reactions (ex_self ex_reactions) ! 3)) = Some (Fin (- (1 / 10000))) \<and>
   get_coefficient (self_reactions (ex_self ex_reactions) ! 3)
     (met_id (self_metabolite (ex_self ex_reactions))) = Some (- 1) \<and>
   np_lt (np_abs (np_mul (Fin (- (1 / 10000))) (Fin (- 1)))) (Fin (tolerance ex_model)) \<and>
   (6::nat) < length (self_reactions (ex_self ex_reactions)) \<and>
   get_coefficient (self_reactions (ex_self ex_reactions) ! 6)
     (met_id (self_metabolite (ex_self ex_reactions))) = Some (- 1) \<and>
   ex_bounds (rid (self_reactions (ex_self ex_reactions) ! 6)) = Some (0, 3) \<and>
   \<bar>0 :: real\<bar> < tolerance ex_model \<and>
   (\<exists>fl mx bc. floats ex_flux ''flux'' = Some fl \<and> fl ! 3 = Fin 0 \<and>
      is_consumed ex_flux = Some bc \<and> bc ! 3 \<and>
      index ex_consuming = pick bc (index ex_flux) \<and>
      floats ex_consuming ''flux'' = Some (pick bc fl) \<and>
      rid (self_reactions (ex_self ex_reactions) ! 3) \<in> set (index ex_consuming) \<and>
      floats ex_flux ''maximum'' = Some mx \<and> mx ! 6 = Fin 0 \<and>
      NegZero \<notin> set fl \<and> NegZero \<notin> set mx)"
proof -
  have tol: "np_lt (np_abs (np_mul (Fin (- (1 / 10000))) (Fin (- 1)))) (Fin (tolerance ex_model))"
    "\<bar>0 :: real\<bar> < tolerance ex_model"
    by (simp_all add: ex_model_def np_mul_def)
  have i3: "(3::nat) < length (self_reactions (ex_self ex_reactions))"
    and i6: "(6::nat) < length (self_reactions (ex_self ex_reactions))"
    by (simp_all add: ex_length)
  from below_tolerance_stored_as_zero
    [OF ex_generate ex_solution_given ex_bounds_given i3 ex_row(4) ex_row(5)]
  obtain flux p q fl bp bc where t: "self_flux ex_summary = Some flux"
      "producing_fluxes ex_summary = Some p" "consuming_fluxes ex_summary = Some q"
    and f: "floats flux ''flux'' = Some fl" "is_consumed flux = Some bc"
      "index q = pick bc (index flux)" "floats q ''flux'' = Some (pick bc fl)"
    and z: "np_lt (np_abs (np_mul (Fin (- (1 / 10000))) (Fin (- 1)))) (Fin (tolerance ex_model)) \<longrightarrow>
         fl ! 3 = Fin 0 \<and> bp ! 3 = ((0::real) < - 1) \<and> bc ! 3 = ((- 1 :: real) < 0) \<and>
         ((0::real) < - 1 \<longrightarrow> rid (self_reactions (ex_self ex_reactions) ! 3) \<in> set (index p)) \<and>
         ((- 1 :: real) < 0 \<longrightarrow> rid (self_reactions (ex_self ex_reactions) ! 3) \<in> set (index q)) \<and>
         (distinct (map rid (self_reactions (ex_self ex_reactions))) \<longrightarrow>
            (rid (self_reactions (ex_self ex_reactions) ! 3) \<in> set (index p)) = ((0::real) < - 1) \<and>
            (rid (self_reactions (ex_self ex_reactions) ! 3) \<in> set (index q)) = ((- 1 :: real) < 0))"
    and cl: "\<forall>tab\<in>{flux, p, q}. \<forall>name xs. floats tab name = Some xs \<longrightarrow> NegZero \<notin> set xs"
    by (elim exE conjE) (rule that; assumption)
  from t have eq: "flux = ex_flux" "p = ex_producing" "q = ex_consuming"
    by (simp_all add: ex_tables)
  from z tol(1) have z': "fl ! 3 = Fin 0" "bc ! 3"
      "rid (self_reactions (ex_self ex_reactions) ! 3) \<in> set (index q)"
    by simp_all
  note a = f [unfolded eq] z' [unfolded eq]
  from cl have clean: "\<And>name xs. floats flux name = Some xs \<Longrightarrow> NegZero \<notin> set xs"
    by simp
  from below_tolerance_stored_as_zero
    [OF ex_generate ex_solution_given ex_bounds_given i6 ex_row(13) ex_row(14)]
  obtain flux' p' q' bp' bc' where t': "self_flux ex_summary = Some flux'"
    and bd: "\<forall>b lo hi. Some ex_bounds = Some b \<and>
         b (rid (self_reactions (ex_self ex_reactions) ! 6)) = Some (lo, hi) \<longrightarrow>
         (\<exists>mn mx. floats flux' ''minimum'' = Some mn \<and> floats flux' ''maximum'' = Some mx \<and>
            length mn = length (self_reactions (ex_self ex_reactions)) \<and>
            length mx = length (self_reactions (ex_self ex_reactions)) \<and>
            floats p' ''minimum'' = Some (pick bp' mn) \<and>
            floats p' ''maximum'' = Some (pick bp' mx) \<and>
            floats q' ''minimum'' = Some (pick bc' mn) \<and>
            floats q' ''maximum'' = Some (pick bc' mx) \<and>
            (\<bar>lo\<bar> < tolerance ex_model \<longrightarrow>
               (if (- 1 :: real) < 0 then mx ! 6 else mn ! 6) = Fin 0) \<and>
            (\<bar>hi\<bar> < tolerance ex_model \<longrightarrow>
               (if (- 1 :: real) < 0 then mn ! 6 else mx ! 6) = Fin 0))"
    by (elim exE conjE) (rule that; assumption)
  from t' have eq': "flux' = ex_flux" by (simp add: ex_tables)
  from bd [THEN spec, THEN spec, THEN spec, THEN mp, OF conjI [OF refl ex_row(15)]]
  obtain mn mx where b0: "floats flux' ''maximum'' = Some mx"
    and b1: "\<bar>0 :: real\<bar> < tolerance ex_model \<longrightarrow>
               (if (- 1 :: real) < 0 then mx ! 6 else mn ! 6) = Fin 0"
    by (elim exE conjE) (rule that; assumption)
  from b1 tol(2) have "mx ! 6 = Fin 0" by simp
  note b = b0 [unfolded eq'] this
  from clean [OF f(1)] have n1: "NegZero \<notin> set fl" .
  from clean [OF b0 [unfolded eq' eq [symmetric]]] have n2: "NegZero \<notin> set mx" .
  from a b n1 n2
  have "\<exists>fl mx bc. floats ex_flux ''flux'' = Some fl \<and> fl ! 3 = Fin 0 \<and>
      is_consumed ex_flux = Some bc \<and> bc ! 3 \<and>
      index ex_consuming = pick bc (index ex_flux) \<and>
      floats ex_consuming ''flux'' = Some (pick bc fl) \<and>
      rid (self_reactions (ex_self ex_reactions) ! 3) \<in> set (index ex_consuming) \<and>
      floats ex_flux ''maximum'' = Some mx \<and> mx ! 6 = Fin 0 \<and>
      NegZero \<notin> set fl \<and> NegZero \<notin> set mx"
    by (intro exI [of _ fl] exI [of _ mx] exI [of _ bc] conjI)
  with tol i3 i6 ex_generate ex_row(4,5,14,15) show ?thesis by (intro conjI)
qed

text \<open>
  Claim C6. With bounds \<open>(lo, hi)\<close> for the row of a reaction with coefficient \<open>c\<close>,
  the stored minimum and maximum are the bounds, zeroed below the tolerance, times
  \<open>c\<close>, and exchanged exactly when \<open>c\<close> is negative. Hence for \<open>c < 0\<close> and
  \<open>lo < hi\<close> the stored maximum is at least the stored minimum; bounds \<open>(-2, 4)\<close>
  with factor \<open>-1\<close> are stored as minimum \<open>-4\<close> and maximum \<open>2\<close>. The bound columns
  of the producing and consuming tables are the rows of these columns at the masks.
\<close>

theorem bounds_scaled_then_swapped:
  assumes gen: "generate ext self model solution fva = Some s"
    and sol: "solution_or_pfba ext model solution = Some sol"
    and fv: "fva_or_analysis ext self model fva = Some (Some b)"
    and i: "i < length (self_reactions self)"
    and v: "sol (rid (self_reactions self ! i)) = Some v"
    and c: "get_coefficient (self_reactions self ! i) (met_id (self_metabolite self)) = Some c"
    and bnd: "b (rid (self_reactions self ! i)) = Some (lo, hi)"
  shows "\<exists>flux p q mn mx bp bc.
      self_flux s = Some flux \<and> producing_fluxes s = Some p \<and> consuming_fluxes s = Some q \<and>
      floats flux ''minimum'' = Some mn \<and> floats flux ''maximum'' = Some mx \<and>
      length mn = length (self_reactions self) \<and> length mx = length (self_reactions self) \<and>
      mn ! i = Fin (if c < 0 then (if \<bar>hi\<bar> < tolerance model then 0 else hi) * c
                    else (if \<bar>lo\<bar> < tolerance model then 0 else lo) * c) \<and>
      mx ! i = Fin (if c < 0 then (if \<bar>lo\<bar> < tolerance model then 0 else lo) * c
                    else (if \<bar>hi\<bar> < tolerance model then 0 else hi) * c) \<and>
      (c < 0 \<and> lo < hi \<longrightarrow> np_ge (mx ! i) (mn ! i)) \<and>
      is_produced flux = Some bp \<and> is_consumed flux = Some bc \<and>
      floats p ''minimum'' = Some (pick bp mn) \<and> floats p ''maximum'' = Some (pick bp mx) \<and>
      floats q ''minimum'' = Some (pick bc mn) \<and> floats q ''maximum'' = Some (pick bc mx)"
proof -
  let ?tol = "tolerance model"
  let ?rs = "self_reactions self"
  from gen sol fv obtain ds where ds: "flux_data self sol = Some ds"
    and s: "s = self\<lparr>producing_fluxes :=
                    Some (table_rows ?tol (Some b) (filter (row_produced ?tol (Some b)) ds)),
                 consuming_fluxes :=
                    Some (table_rows ?tol (Some b) (filter (row_consumed ?tol (Some b)) ds)),
                 self_flux := Some (flux_rows ?tol (Some b) ds)\<rparr>"
    unfolding generate_rows by auto
  have len: "length ds = length ?rs" by (rule flux_data_Some(1) [OF ds])
  have row: "ds ! i = (rid (?rs ! i), v, c)" by (rule flux_data_row [OF ds i v c])
  have i': "i < length ds" using i len by simp
  have mn: "stored_minimum ?tol b (ds ! i) =
      (if c < 0 then (if \<bar>hi\<bar> < ?tol then 0 else hi) * c else (if \<bar>lo\<bar> < ?tol then 0 else lo) * c)"
    by (simp add: stored_minimum_def row bnd snap_def)
  have mx: "stored_maximum ?tol b (ds ! i) =
      (if c < 0 then (if \<bar>lo\<bar> < ?tol then 0 else lo) * c else (if \<bar>hi\<bar> < ?tol then 0 else hi) * c)"
    by (simp add: stored_maximum_def row bnd snap_def)
  have mono: "snap ?tol lo \<le> snap ?tol hi" if "lo < hi"
    using that by (auto simp: snap_def)
  have ord: "stored_minimum ?tol b (ds ! i) \<le> stored_maximum ?tol b (ds ! i)" if "c < 0" "lo < hi"
    using mono [OF that(2)] that(1)
    by (simp add: stored_minimum_def stored_maximum_def row bnd mult_right_mono_neg)
  show ?thesis
    apply (rule exI [of _ "flux_rows ?tol (Some b) ds"])
    apply (rule exI [of _ "table_rows ?tol (Some b) (filter (row_produced ?tol (Some b)) ds)"])
    apply (rule exI [of _ "table_rows ?tol (Some b) (filter (row_consumed ?tol (Some b)) ds)"])
    apply (rule exI [of _ "map (\<lambda>d. Fin (stored_minimum ?tol b d)) ds"])
    apply (rule exI [of _ "map (\<lambda>d. Fin (stored_maximum ?tol b d)) ds"])
    apply (rule exI [of _ "map (row_produced ?tol (Some b)) ds"])
    apply (rule exI [of _ "map (row_consumed ?tol (Some b)) ds"])
    apply (intro conjI)
    subgoal by (simp add: s)
    subgoal by (simp add: s)
    subgoal by (simp add: s)
    subgoal by (rule floats_flux_rows_bounds)
    subgoal by (rule floats_flux_rows_bounds)
    subgoal by (simp add: len)
    subgoal by (simp add: len)
    subgoal using i' by (simp add: mn)
    subgoal using i' by (simp add: mx)
    subgoal using i' ord by simp
    subgoal by (rule is_produced_rows)
    subgoal by (rule is_consumed_rows)
    subgoal by (simp add: floats_table_rows_bounds)
    subgoal by (simp add: floats_table_rows_bounds)
    subgoal by (simp add: floats_table_rows_bounds)
    subgoal by (simp add: floats_table_rows_bounds)
    done
qed

theorem bounds_scaled_then_swapped_witness:
  "generate ex_ext (ex_self ex_reactions) ex_model (Some ex_solution) (Some (Bounds ex_bounds))
     = Some ex_summary \<and>
   (3::nat) < length (self_reactions (ex_self ex_reactions)) \<and>
   get_coefficient (self_reactions (ex_self ex_reactions) ! 3)
     (met_id (self_metabolite (ex_self ex_reactions))) = Some (- 1) \<and>
   ex_bounds (rid (self_reactions (ex_self ex_reactions) ! 3)) = Some (- 2, 4) \<and>
   (\<exists>mn mx. floats ex_flux ''minimum'' = Some mn \<and> floats ex_flux ''maximum'' = Some mx \<and>
      mn ! 3 = Fin (- 4) \<and> mx ! 3 = Fin 2 \<and> np_ge (mx ! 3) (mn ! 3))"
proof -
  have i3: "(3::nat) < length (self_reactions (ex_self ex_reactions))"
    by (simp add: ex_length)
  from bounds_scaled_then_swapped
    [OF ex_generate ex_solution_given ex_bounds_given i3 ex_row(4) ex_row(5) ex_row(6)]
  obtain flux mn mx where t: "self_flux ex_summary = Some flux"
    and f: "floats flux ''minimum'' = Some mn" "floats flux ''maximum'' = Some mx"
    and v: "mn ! 3 = Fin (if (- 1 :: real) < 0
                then (if \<bar>4 :: real\<bar> < tolerance ex_model then 0 else 4) * - 1
                else (if \<bar>- 2 :: real\<bar> < tolerance ex_model then 0 else - 2) * - 1)"
      "mx ! 3 = Fin (if (- 1 :: real) < 0
                then (if \<bar>- 2 :: real\<bar> < tolerance ex_model then 0 else - 2) * - 1
                else (if \<bar>4 :: real\<bar> < tolerance ex_model then 0 else 4) * - 1)"
    and o: "(- 1 :: real) < 0 \<and> (- 2 :: real) < 4 \<longrightarrow> np_ge (mx ! 3) (mn ! 3)"
    by blast
  from t have eq: "flux = ex_flux" by (simp add: ex_tables)
  from v have v': "mn ! 3 = Fin (- 4)" "mx ! 3 = Fin 2" by (simp_all add: ex_model_def)
  from o have o': "np_ge (mx ! 3) (mn ! 3)" by simp
  from f [unfolded eq] v' o'
  have "floats ex_flux ''minimum'' = Some mn" "floats ex_flux ''maximum'' = Some mx"
      "mn ! 3 = Fin (- 4)" "mx ! 3 = Fin 2" "np_ge (mx ! 3) (mn ! 3)"
    by simp_all
  with i3 ex_generate ex_row(5,6) show ?thesis by blast
qed

text \<open>
  Claim C7. When the solver and the variability analysis return and the solution
  has a flux and the reaction a coefficient for every reaction of the metabolite,
  construction returns a summary with both tables, whatever the fluxes are. In a
  table whose total absolute flux is zero every percent is NaN, the value of
  \<open>0 / 0\<close>, and nothing is raised.
\<close>

theorem zero_total_gives_nan_percent:
  assumes sol: "solution_or_pfba ext model solution = Some sol"
    and fv: "fva_or_analysis ext self model fva = Some fv"
    and cov: "\<forall>r\<in>set (self_reactions self).
                sol (rid r) \<noteq> None \<and> get_coefficient r (met_id (self_metabolite self)) \<noteq> None"
  shows "\<exists>s p c. generate ext self model solution fva = Some s \<and>
           producing_fluxes s = Some p \<and> consuming_fluxes s = Some c \<and>
           (\<forall>tab\<in>{p, c}. \<exists>fl pc.
              floats tab ''flux'' = Some fl \<and> floats tab ''percent'' = Some pc \<and>
              length fl = length (index tab) \<and> length pc = length (index tab) \<and>
              (np_iszero (np_sum (map np_abs fl)) \<longrightarrow> (\<forall>x\<in>set pc. x = NaN \<and> \<not> isfinite x)))"
proof -
  let ?tol = "tolerance model"
  let ?F = "stored_flux ?tol fv"
  from cov obtain ds where ds: "flux_data self sol = Some ds"
    using flux_data_total [of self sol] by blast
  let ?p = "table_rows ?tol fv (filter (row_produced ?tol fv) ds)"
  let ?c = "table_rows ?tol fv (filter (row_consumed ?tol fv) ds)"
  let ?s = "self\<lparr>producing_fluxes := Some ?p, consuming_fluxes := Some ?c,
                 self_flux := Some (flux_rows ?tol fv ds)\<rparr>"
  have gen: "generate ext self model solution fva = Some ?s"
    unfolding generate_rows using sol fv ds by blast
  have tabs: "\<exists>fl pc.
              floats (table_rows ?tol fv xs) ''flux'' = Some fl \<and>
              floats (table_rows ?tol fv xs) ''percent'' = Some pc \<and>
              length fl = length (index (table_rows ?tol fv xs)) \<and>
              length pc = length (index (table_rows ?tol fv xs)) \<and>
              (np_iszero (np_sum (map np_abs fl)) \<longrightarrow> (\<forall>x\<in>set pc. x = NaN \<and> \<not> isfinite x))"
    if nn: "\<forall>d\<in>set xs. \<not> isnan (?F d)" for xs
  proof -
    let ?fl = "map ?F xs"
    have "share ?fl (?F d) = NaN" if "np_iszero (np_sum (map np_abs ?fl))" "d \<in> set xs" for d
      using share_zero_total [OF that(1), of "?F d"] nn that(2) by simp
    then show ?thesis
      by (auto simp: floats_table_rows index_table_rows)
  qed
  have p: "\<forall>d\<in>set (filter (row_produced ?tol fv) ds). \<not> isnan (?F d)"
    and c: "\<forall>d\<in>set (filter (row_consumed ?tol fv) ds). \<not> isnan (?F d)"
    using row_not_nan by auto
  show ?thesis
    apply (rule exI [of _ ?s], rule exI [of _ ?p], rule exI [of _ ?c])
    using gen tabs [OF p] tabs [OF c] by simp
qed

theorem zero_total_gives_nan_percent_witness:
  "solution_or_pfba ex_ext ex_model (Some ex_solution) = Some ex_solution \<and>
   fva_or_analysis ex_ext (ex_self ex_idle) ex_model None = Some None \<and>
   map (\<lambda>r. ex_solution (rid r)) (self_reactions (ex_self ex_idle)) = [Some (Fin 0), Some (Fin 1)] \<and>
   map (\<lambda>r. get_coefficient r (met_id (self_metabolite (ex_self ex_idle))))
     (self_reactions (ex_self ex_idle)) = [Some 1, Some 0] \<and>
   (\<exists>s p fl. generate ex_ext (ex_self ex_idle) ex_model (Some ex_solution) None = Some s \<and>
      producing_fluxes s = Some p \<and> index p = [''C''] \<and>
      floats p ''flux'' = Some fl \<and> np_iszero (np_sum (map np_abs fl)) \<and>
      floats p ''percent'' = Some [NaN])"
proof -
  have cov: "\<forall>r\<in>set (self_reactions (ex_self ex_idle)).
      ex_solution (rid r) \<noteq> None \<and>
      get_coefficient r (met_id (self_metabolite (ex_self ex_idle))) \<noteq> None"
    by (simp add: ex_defs get_coefficient_def)
  from zero_total_gives_nan_percent [OF ex_solution_given ex_idle_no_bounds cov]
  obtain s p fl pc where g: "generate ex_ext (ex_self ex_idle) ex_model (Some ex_solution) None = Some s"
    and p: "producing_fluxes s = Some p"
    and fl: "floats p ''flux'' = Some fl" "floats p ''percent'' = Some pc"
      "length pc = length (index p)"
      "np_iszero (np_sum (map np_abs fl)) \<longrightarrow> (\<forall>x\<in>set pc. x = NaN \<and> \<not> isfinite x)"
    by fastforce
  from g have s: "s = ex_idle_summary" by (simp add: ex_idle_generate)
  from p have p': "p = \<lparr>index = [''C''],
         cols = [(''flux'', Floats [Fin 0]), (''reaction'', Strs [''C'']),
                 (''percent'', Floats [NaN])]\<rparr>"
    by (simp add: s ex_idle_summary_def ex_self_def)
  from fl(1) have fl': "fl = [Fin 0]" by (simp add: p' floats_def)
  have z: "np_iszero (np_sum (map np_abs fl))" by (simp add: fl' np_sum_def np_add_def)
  with fl(4) have "\<forall>x\<in>set pc. x = NaN" by simp
  moreover from fl(3) have "length pc = 1" by (simp add: p')
  ultimately have "pc = [NaN]" by (cases pc) auto
  moreover have "map (\<lambda>r. ex_solution (rid r)) (self_reactions (ex_self ex_idle)) = [Some (Fin 0), Some (Fin 1)]"
    "map (\<lambda>r. get_coefficient r (met_id (self_metabolite (ex_self ex_idle))))
       (self_reactions (ex_self ex_idle)) = [Some 1, Some 0]"
    by (simp_all add: ex_defs get_coefficient_def)
  ultimately show ?thesis
    using g p fl z p' ex_solution_given ex_idle_no_bounds by auto
qed

text \<open>
  Claim C8. Whatever the parameters and the store, when \<open>to_string\<close> or \<open>to_html\<close>
  returns, the summary it leaves behind is the summary it was given: the model, the
  metabolite, the reactions and the three tables, with their rows, columns and
  values. The row filter writes to a copy and the column headers are retitled on a
  frame that rendering created. (Lemma \<open>string_table_writes_through\<close> shows that
  the same retitling, applied to a table of the summary itself, would change it.)
\<close>

theorem rendering_keeps_tables:
  "(to_string ext st names threshold float_format column_width = Some (out, st') \<longrightarrow>
      summary st' = summary st) \<and>
   (to_html ext st names threshold float_format = Some (out, st') \<longrightarrow>
      summary st' = summary st)"
proof (intro conjI impI)
  assume "to_string ext st names threshold float_format column_width = Some (out, st')"
  then obtain t f1 s1 p1 s2 f2 s3 p2 where
      a: "display_flux st ProducingFluxes names t = Some (f1, s1)"
      and b: "string_table ext s1 f1 float_format column_width = Some (p1, s2)"
      and c: "display_flux s2 ConsumingFluxes names t = Some (f2, s3)"
      and d: "string_table ext s3 f2 float_format column_width = Some (p2, st')"
    by (auto simp: to_string_def bind_eq_Some_conv Let_def)
  from display_flux_summary [OF a] obtain n1 where 1: "summary s1 = summary st" "f1 = Object n1"
    by blast
  from table_summary [OF b [unfolded 1(2)]] have 2: "summary s2 = summary s1" .
  from display_flux_summary [OF c] obtain n2 where 3: "summary s3 = summary s2" "f2 = Object n2"
    by blast
  from table_summary [OF d [unfolded 3(2)]] have 4: "summary st' = summary s3" .
  from 1 2 3 4 show "summary st' = summary st" by simp
next
  assume "to_html ext st names threshold float_format = Some (out, st')"
  then obtain f1 s1 p1 s2 f2 s3 p2 where
      a: "display_flux st ProducingFluxes names threshold = Some (f1, s1)"
      and b: "html_table ext s1 f1 float_format = Some (p1, s2)"
      and c: "display_flux s2 ConsumingFluxes names threshold = Some (f2, s3)"
      and d: "html_table ext s3 f2 float_format = Some (p2, st')"
    by (auto simp: to_html_def bind_eq_Some_conv Let_def)
  from display_flux_summary [OF a] obtain n1 where 1: "summary s1 = summary st" "f1 = Object n1"
    by blast
  from html_summary [OF b [unfolded 1(2)]] have 2: "summary s2 = summary s1" .
  from display_flux_summary [OF c] obtain n2 where 3: "summary s3 = summary s2" "f2 = Object n2"
    by blast
  from html_summary [OF d [unfolded 3(2)]] have 4: "summary st' = summary s3" .
  from 1 2 3 4 show "summary st' = summary st" by simp
qed

theorem rendering_keeps_tables_witness:
  "(\<exists>out st'. to_string ex_ext ex_state False (1 / 1000000) ''.4G'' 79 = Some (out, st') \<and>
      summary st' = summary ex_state \<and> producing_fluxes (summary st') = Some ex_producing \<and>
      consuming_fluxes (summary st') = Some ex_consuming) \<and>
   (\<exists>out st'. to_html ex_ext ex_state True 0 ''.4G'' = Some (out, st') \<and>
      summary st' = summary ex_state \<and> producing_fluxes (summary st') = Some ex_producing \<and>
      consuming_fluxes (summary st') = Some ex_consuming)"
proof -
  have s: "summary ex_state = ex_summary" by (simp add: ex_state_def)
  from ex_to_string obtain out st' where
    e: "to_string ex_ext ex_state False (1 / 1000000) ''.4G'' 79 = Some (out, st')" by blast
  from rendering_keeps_tables [where ext = ex_ext and st = ex_state and names = False
      and threshold = "1 / 1000000" and float_format = "''.4G''" and column_width = 79
      and out = out and st' = st'] e
  have "summary st' = summary ex_state" by blast
  with e have a: "\<exists>out st'. to_string ex_ext ex_state False (1 / 1000000) ''.4G'' 79 = Some (out, st') \<and>
      summary st' = summary ex_state \<and> producing_fluxes (summary st') = Some ex_producing \<and>
      consuming_fluxes (summary st') = Some ex_consuming"
    by (auto simp: s ex_tables)
  from ex_to_html obtain out2 st2 where
    h: "to_html ex_ext ex_state True 0 ''.4G'' = Some (out2, st2)" by blast
  from rendering_keeps_tables [where ext = ex_ext and st = ex_state and names = True
      and threshold = 0 and float_format = "''.4G''" and out = out2 and st' = st2] h
  have "summary st2 = summary ex_state" by blast
  with h have b: "\<exists>out st'. to_html ex_ext ex_state True 0 ''.4G'' = Some (out, st') \<and>
      summary st' = summary ex_state \<and> producing_fluxes (summary st') = Some ex_producing \<and>
      consuming_fluxes (summary st') = Some ex_consuming"
    by (auto simp: s ex_tables)
  from a b show ?thesis by (rule conjI)
qed

text \<open>
  Claim C9. For one table and two thresholds \<open>t1 \<le> t2\<close>, every row that
  \<open>display_flux\<close> keeps at \<open>t2\<close> it keeps at \<open>t1\<close>: the row masks are ordered
  pointwise, the labels rendered at \<open>t2\<close> are among those rendered at \<open>t1\<close>, and there
  are no more of them. A row is kept when \<open>|flux| \<ge> t\<close>, or, in a table with bound
  columns, when \<open>|minimum| \<ge> t\<close> or \<open>|maximum| \<ge> t\<close>.
\<close>

theorem threshold_monotone:
  assumes le: "t1 \<le> t2"
    and d1: "display_flux st r names t1 = Some (r1, st1)"
    and d2: "display_flux st r names t2 = Some (r2, st2)"
  shows "\<exists>f b1 b2 out1 out2.
      deref st r = Some f \<and> shown f t1 = Some b1 \<and> shown f t2 = Some b2 \<and>
      length b1 = length b2 \<and> (\<forall>i<length b2. b2 ! i \<longrightarrow> b1 ! i) \<and>
      deref st1 r1 = Some out1 \<and> deref st2 r2 = Some out2 \<and>
      index out1 = pick b1 (index f) \<and> index out2 = pick b2 (index f) \<and>
      set (index out2) \<subseteq> set (index out1) \<and>
      length (index out2) \<le> length (index out1) \<and>
      (\<forall>t b. shown f t = Some b \<longrightarrow>
         (\<exists>fl. floats f ''flux'' = Some fl \<and>
            (if has_bounds f
             then \<exists>mn mx. floats f ''minimum'' = Some mn \<and> floats f ''maximum'' = Some mx \<and>
                    (\<forall>i<length b. b ! i = (np_ge (np_abs (fl ! i)) (Fin t) \<or>
                                            np_ge (np_abs (mn ! i)) (Fin t) \<or>
                                            np_ge (np_abs (mx ! i)) (Fin t)))
             else length b = length fl \<and>
                    (\<forall>i<length b. b ! i = np_ge (np_abs (fl ! i)) (Fin t)))))"
proof -
  from display_flux_Some [OF d1] obtain f b1 g1 out1 where
      f: "deref st r = Some f" and b1: "shown f t1 = Some b1"
      and r1: "r1 = Object (Suc (length (objects st)))"
      and st1: "st1 = st\<lparr>objects := objects st @ [g1, out1]\<rparr>"
      and i1: "index out1 = pick b1 (index f)"
    by blast
  from display_flux_Some [OF d2] f obtain b2 g2 out2 where
      b2: "shown f t2 = Some b2"
      and r2: "r2 = Object (Suc (length (objects st)))"
      and st2: "st2 = st\<lparr>objects := objects st @ [g2, out2]\<rparr>"
      and i2: "index out2 = pick b2 (index f)"
    by auto
  have o1: "deref st1 r1 = Some out1" by (simp add: r1 st1 deref_def nth_append)
  have o2: "deref st2 r2 = Some out2" by (simp add: r2 st2 deref_def nth_append)
  note m = shown_antitone [OF le b1 b2]
  from pick_antitone [of b1 b2 "index f"] m
  have "set (index out2) \<subseteq> set (index out1) \<and> length (index out2) \<le> length (index out1)"
    by (simp add: i1 i2)
  moreover note shown_rows [of f]
  ultimately show ?thesis using f b1 b2 m o1 o2 i1 i2 by blast
qed

theorem threshold_monotone_witness:
  "(1 / 1000 :: real) \<le> 5 \<and>
   (\<exists>r1 st1 r2 st2 out1 out2.
      display_flux ex_state ProducingFluxes False (1 / 1000) = Some (r1, st1) \<and>
      display_flux ex_state ProducingFluxes False 5 = Some (r2, st2) \<and>
      deref st1 r1 = Some out1 \<and> deref st2 r2 = Some out2 \<and>
      index out1 = [''A'', ''E'', ''F''] \<and> index out2 = [''A''] \<and>
      set (index out2) \<subseteq> set (index out1) \<and> length (index out2) \<le> length (index out1))"
proof -
  have le: "(1 / 1000 :: real) \<le> 5" by simp
  from ex_display_flux obtain r1 st1 r2 st2 where
    d1: "display_flux ex_state ProducingFluxes False (1 / 1000) = Some (r1, st1)" and
    d2: "display_flux ex_state ProducingFluxes False 5 = Some (r2, st2)"
    by blast
  from threshold_monotone [OF le d1 d2] obtain f b1 b2 out1 out2 where
    f: "deref ex_state ProducingFluxes = Some f"
    and b: "shown f (1 / 1000) = Some b1" "shown f 5 = Some b2"
    and o: "deref st1 r1 = Some out1" "deref st2 r2 = Some out2"
    and i: "index out1 = pick b1 (index f)" "index out2 = pick b2 (index f)"
    and m: "set (index out2) \<subseteq> set (index out1)" "length (index out2) \<le> length (index out1)"
    by blast
  from f have f': "f = ex_producing" by (simp add: ex_deref)
  from b have b': "b1 = [True, False, True, True]" "b2 = [True, False, False, False]"
    by (simp_all add: f' ex_shown)
  from i have "index out1 = [''A'', ''E'', ''F'']" "index out2 = [''A'']"
    by (simp_all add: f' b' ex_producing_def pick_def)
  with le d1 d2 o m show ?thesis by blast
qed

text \<open>
  Claim C10. The tolerance test of the bounds reads the bounds as the analysis
  returned them, before they are multiplied by the factor. A bound below the
  tolerance in absolute value is stored as zero whatever its product with the factor
  is, and a bound at or above the tolerance is stored as its product with the factor,
  which is below the tolerance and not zero when the factor is small enough. The cell
  of \<open>lo\<close> is in the minimum column, or in the maximum column for a negative factor.
\<close>

theorem tolerance_test_on_raw_bounds:
  assumes gen: "generate ext self model solution fva = Some s"
    and sol: "solution_or_pfba ext model solution = Some sol"
    and fv: "fva_or_analysis ext self model fva = Some (Some b)"
    and i: "i < length (self_reactions self)"
    and v: "sol (rid (self_reactions self ! i)) = Some v"
    and c: "get_coefficient (self_reactions self ! i) (met_id (self_metabolite self)) = Some c"
    and bnd: "b (rid (self_reactions self ! i)) = Some (lo, hi)"
  shows "\<exists>flux mn mx.
      self_flux s = Some flux \<and>
      floats flux ''minimum'' = Some mn \<and> floats flux ''maximum'' = Some mx \<and>
      length mn = length (self_reactions self) \<and> length mx = length (self_reactions self) \<and>
      (\<bar>lo\<bar> < tolerance model \<longrightarrow> (if c < 0 then mx ! i else mn ! i) = Fin 0) \<and>
      (tolerance model \<le> \<bar>lo\<bar> \<longrightarrow> (if c < 0 then mx ! i else mn ! i) = Fin (lo * c)) \<and>
      (\<bar>hi\<bar> < tolerance model \<longrightarrow> (if c < 0 then mn ! i else mx ! i) = Fin 0) \<and>
      (tolerance model \<le> \<bar>hi\<bar> \<longrightarrow> (if c < 0 then mn ! i else mx ! i) = Fin (hi * c))"
proof -
  let ?tol = "tolerance model"
  let ?rs = "self_reactions self"
  from gen sol fv obtain ds where ds: "flux_data self sol = Some ds"
    and s: "self_flux s = Some (flux_rows ?tol (Some b) ds)"
    unfolding generate_rows by auto
  have len: "length ds = length ?rs" by (rule flux_data_Some(1) [OF ds])
  have row: "ds ! i = (rid (?rs ! i), v, c)" by (rule flux_data_row [OF ds i v c])
  have i': "i < length ds" using i len by simp
  show ?thesis
    apply (rule exI [of _ "flux_rows ?tol (Some b) ds"])
    apply (rule exI [of _ "map (\<lambda>d. Fin (stored_minimum ?tol b d)) ds"])
    apply (rule exI [of _ "map (\<lambda>d. Fin (stored_maximum ?tol b d)) ds"])
    apply (intro conjI)
    subgoal by (rule s)
    subgoal by (rule floats_flux_rows_bounds)
    subgoal by (rule floats_flux_rows_bounds)
    subgoal by (simp add: len)
    subgoal by (simp add: len)
    subgoal using i' by (simp add: stored_minimum_def stored_maximum_def row bnd snap_def)
    subgoal using i' by (simp add: stored_minimum_def stored_maximum_def row bnd snap_def)
    subgoal using i' by (simp add: stored_minimum_def stored_maximum_def row bnd snap_def)
    subgoal using i' by (simp add: stored_minimum_def stored_maximum_def row bnd snap_def)
    done
qed

theorem tolerance_test_on_raw_bounds_witness:
  "generate ex_ext (ex_self ex_reactions) ex_model (Some ex_solution) (Some (Bounds ex_bounds))
     = Some ex_summary \<and>
   ex_bounds (rid (self_reactions (ex_self ex_reactions) ! 4)) = Some (1 / 2000, 1) \<and>
   get_coefficient (self_reactions (ex_self ex_reactions) ! 4)
     (met_id (self_metabolite (ex_self ex_reactions))) = Some 4 \<and>
   \<bar>1 / 2000 :: real\<bar> < tolerance ex_model \<and> tolerance ex_model \<le> \<bar>1 / 2000 * 4 :: real\<bar> \<and>
   ex_bounds (rid (self_reactions (ex_self ex_reactions) ! 5)) = Some (1 / 1000, 1) \<and>
   get_coefficient (self_reactions (ex_self ex_reactions) ! 5)
     (met_id (self_metabolite (ex_self ex_reactions))) = Some (1 / 2) \<and>
   tolerance ex_model \<le> \<bar>1 / 1000 :: real\<bar> \<and> \<bar>1 / 1000 * (1 / 2) :: real\<bar> < tolerance ex_model \<and>
   (\<exists>mn. floats ex_flux ''minimum'' = Some mn \<and> mn ! 4 = Fin 0 \<and> mn ! 5 = Fin (1 / 2000))"
proof -
  have tol: "\<bar>1 / 2000 :: real\<bar> < tolerance ex_model" "tolerance ex_model \<le> \<bar>1 / 2000 * 4 :: real\<bar>"
    "tolerance ex_model \<le> \<bar>1 / 1000 :: real\<bar>" "\<bar>1 / 1000 * (1 / 2) :: real\<bar> < tolerance ex_model"
    by (simp_all add: ex_model_def)
  have i4: "(4::nat) < length (self_reactions (ex_self ex_reactions))"
    and i5: "(5::nat) < length (self_reactions (ex_self ex_reactions))"
    by (simp_all add: ex_length)
  from tolerance_test_on_raw_bounds
    [OF ex_generate ex_solution_given ex_bounds_given i4 ex_row(7) ex_row(8) ex_row(9)] tol(1)
  obtain mn where a: "floats ex_flux ''minimum'' = Some mn" "mn ! 4 = Fin 0"
    unfolding ex_tables by auto
  from tolerance_test_on_raw_bounds
    [OF ex_generate ex_solution_given ex_bounds_given i5 ex_row(10) ex_row(11) ex_row(12)] tol(3) a(1)
  have b: "mn ! 5 = Fin (1 / 2000)"
    unfolding ex_tables by auto
  from a b tol ex_generate ex_row(8,9,11,12) show ?thesis by blast
qed

end
